theory Spec2Isabelle
  imports Complex_Main
begin

section \<open>Python values used by the pipeline\<close>

text \<open>
  The pipeline of \<^verbatim>\<open>main.py\<close> and \<^verbatim>\<open>etl/*.py\<close> is embedded as pure functions over an
  explicit world (file system, target store, Loader attributes, log). Exceptions are
  values: a class of \<^verbatim>\<open>utils/exceptions.py\<close> or of Python, and the text \<^verbatim>\<open>str(e)\<close>. A
  method that may raise returns \<open>Inl\<close> of the exception or \<open>Inr\<close> of its value, with the
  world it leaves.

  What lies outside the repository is a parameter (the record \<open>environment\<close>): what
  pandas parses and casts, the regular expressions, the clock, and what the store
  accepts. Floats are rationals. Log records of level DEBUG are left out, as are the
  arguments that only tune the libraries (\<^verbatim>\<open>chunk_size\<close>, \<^verbatim>\<open>dtypes\<close>, the connection
  timeout, delimiter, quote character, encoding and batch size). The thread pool of
  \<^verbatim>\<open>main\<close> is not modelled: \<open>main\<close> stops where it would hand the files to it.
\<close>

datatype exn_class =
    ETLError | ConfigurationError | ExtractionError | ValidationError
  | TransformationError | LoadError | DatabaseError
  | KeyError | ValueError | TypeError | OSError | StopIteration | OtherException

datatype exn = Exn (cls: exn_class) (str_exn: string)

text \<open>The classes of \<^verbatim>\<open>utils/exceptions.py\<close>: all derive from \<^verbatim>\<open>ETLError\<close>.\<close>

definition is_ETLError :: "exn \<Rightarrow> bool" where
  "is_ETLError e = (cls e \<in> set [ETLError, ConfigurationError, ExtractionError,
     ValidationError, TransformationError, LoadError, DatabaseError])"

fun str_nat :: "nat \<Rightarrow> string" where
  "str_nat n = (if n < 10 then [''0123456789'' ! n]
                else str_nat (n div 10) @ [''0123456789'' ! (n mod 10)])"

declare str_nat.simps [simp del]

definition str_int :: "int \<Rightarrow> string" where
  "str_int i = (if i < 0 then CHR ''-'' # str_nat (nat (- i)) else str_nat (nat i))"

definition str_opt :: "string option \<Rightarrow> string" where
  "str_opt s = (case s of None \<Rightarrow> ''None'' | Some t \<Rightarrow> t)"

definition repr :: "string \<Rightarrow> string" where
  "repr s = CHR 0x27 # s @ [CHR 0x27]"

definition ascii_lower :: "char \<Rightarrow> char" where
  "ascii_lower c =
     (case map_of (zip ''ABCDEFGHIJKLMNOPQRSTUVWXYZ'' ''abcdefghijklmnopqrstuvwxyz'') c of
        Some l \<Rightarrow> l | None \<Rightarrow> c)"

definition lower :: "string \<Rightarrow> string" where
  "lower s = map ascii_lower s"

definition is_space :: "char \<Rightarrow> bool" where
  "is_space c = (c \<in> set [CHR '' '', CHR 0x09, CHR 0x0A, CHR 0x0B, CHR 0x0C, CHR 0x0D,
                             CHR 0x1C, CHR 0x1D, CHR 0x1E, CHR 0x1F])"

definition strip :: "string \<Rightarrow> string" where
  "strip s = rev (dropWhile is_space (rev (dropWhile is_space s)))"

definition endswith :: "string \<Rightarrow> string \<Rightarrow> bool" where
  "endswith s suf = (length suf \<le> length s \<and> drop (length s - length suf) s = suf)"

fun index_of :: "'a list \<Rightarrow> 'a \<Rightarrow> nat option" where
  "index_of [] y = None"
| "index_of (x # xs) y = (if x = y then Some 0 else map_option Suc (index_of xs y))"

subsection \<open>Paths\<close>

record path =
  parent :: string
  name :: string

definition str_path :: "path \<Rightarrow> string" where
  "str_path p = parent p @ ''/'' @ name p"

definition joinpath :: "string \<Rightarrow> string \<Rightarrow> path" where
  "joinpath d n = \<lparr>parent = d, name = n\<rparr>"

text \<open>\<^verbatim>\<open>Path.suffix\<close> and \<^verbatim>\<open>Path.stem\<close>: the name is cut at its last dot, unless that dot
  is the first or the last character.\<close>

definition dot_index :: "string \<Rightarrow> nat option" where
  "dot_index s =
     (let k = length (takeWhile (\<lambda>c. c \<noteq> CHR ''.'') (rev s)) in
      if k = length s then None
      else let i = length s - 1 - k in
           if 0 < i \<and> i < length s - 1 then Some i else None)"

definition suffix :: "path \<Rightarrow> string" where
  "suffix p = (case dot_index (name p) of None \<Rightarrow> [] | Some i \<Rightarrow> drop i (name p))"

definition stem :: "path \<Rightarrow> string" where
  "stem p = (case dot_index (name p) of None \<Rightarrow> name p | Some i \<Rightarrow> take i (name p))"

section \<open>Data model\<close>

text \<open>
  A cell of a pandas column. \<open>NA\<close> is the null value (NaN, NaT, \<^verbatim>\<open><NA>\<close>, None);
  a float is idealised as a rational (no rounding, no infinities); a timestamp is a
  count of time units.
\<close>

datatype cell = NA | IntV int | FloatV rat | StrV string | BoolV bool | TimeV int

type_synonym series = "cell list"

text \<open>A DataFrame: its named columns, in order.\<close>

type_synonym dataframe = "(string \<times> series) list"

definition columns :: "dataframe \<Rightarrow> string list" where
  "columns df = map fst df"

text \<open>\<^verbatim>\<open>len(df)\<close>\<close>

definition len_df :: "dataframe \<Rightarrow> nat" where
  "len_df df = (case df of [] \<Rightarrow> 0 | (_, s) # _ \<Rightarrow> length s)"

text \<open>\<^verbatim>\<open>df[column]\<close> raises \<^verbatim>\<open>KeyError\<close> for a column the frame does not have.\<close>

definition getitem :: "dataframe \<Rightarrow> string \<Rightarrow> exn + series" where
  "getitem df c = (case map_of df c of None \<Rightarrow> Inl (Exn KeyError (repr c)) | Some s \<Rightarrow> Inr s)"

text \<open>\<^verbatim>\<open>df[column] = s\<close> for a column the frame has.\<close>

definition setitem :: "dataframe \<Rightarrow> string \<Rightarrow> series \<Rightarrow> dataframe" where
  "setitem df c s = map (\<lambda>(n, x). if n = c then (n, s) else (n, x)) df"

text \<open>\<^verbatim>\<open>df.head(0)\<close>\<close>

definition head0 :: "dataframe \<Rightarrow> dataframe" where
  "head0 df = map (\<lambda>(n, x). (n, [])) df"

subsection \<open>The file system\<close>

text \<open>
  What the csv module and pandas give for one file under the Extractor's delimiter,
  quote character, encoding and batch size: the first row (or the exception of
  \<^verbatim>\<open>open\<close>, \<^verbatim>\<open>csv.reader\<close> or \<^verbatim>\<open>next\<close>), and what \<^verbatim>\<open>pd.read_csv(chunksize=...)\<close>
  and the iteration over it yield in turn (a chunk, or the exception raised there).
\<close>

record csv_file =
  header_row :: "exn + string list"
  batches :: "(exn + dataframe) list"

text \<open>Files are listed in the order in which the operating system enumerates them.\<close>

record filesystem =
  directories :: "string list"
  read_only :: "string list"
  files :: "(path \<times> csv_file) list"

subsection \<open>The target store and the world\<close>

datatype if_exists = Fail | Replace | Append

datatype db_call = ToSql string if_exists nat | Execute string

datatype attempt = EngineFails exn | ConnectFails exn | Connects

datatype level = INFO | WARNING | ERROR

text \<open>
  The world a run changes: the file system; the tables of the store (each the chunks
  inserted since its creation) and the calls the store received; the number of
  connection attempts made; the Loader's \<^verbatim>\<open>engine\<close> and \<^verbatim>\<open>connection\<close> attributes; the
  records given to the logger (at the default level INFO: debug records are dropped);
  the delays passed to \<^verbatim>\<open>time.sleep\<close>; and a state that custom validation functions
  may read and write.
\<close>

record 'u world =
  fs :: filesystem
  tables :: "(string \<times> dataframe list) list"
  db_calls :: "db_call list"
  attempts :: nat
  engine :: "string option"
  connection :: bool
  logger :: "(level \<times> string) list"
  sleeps :: "int list"
  custom_state :: 'u

text \<open>
  What a run does not change: the behaviour of pandas, \<^verbatim>\<open>re\<close>, the clock and the store.
  \<^item> \<open>to_numeric_value\<close>, \<open>to_datetime_value\<close>: what \<^verbatim>\<open>pd.to_numeric\<close> and
    \<^verbatim>\<open>pd.to_datetime\<close> parse a cell to, \<open>None\<close> where the cell is invalid;
  \<^item> \<open>str_value\<close>: \<^verbatim>\<open>str\<close> of a cell; \<open>astype_generic\<close>: \<^verbatim>\<open>Series.astype(dtype)\<close>;
  \<^item> \<open>re_match\<close>: the compiled pattern as a test of \<^verbatim>\<open>re.match\<close> on a text, or the
    exception of compiling it;
  \<^item> \<open>timestamp\<close>: \<^verbatim>\<open>datetime.now().strftime("%Y%m%d%H%M%S")\<close>;
  \<^item> \<open>connect_outcome n\<close>: what \<^verbatim>\<open>create_engine\<close> and \<^verbatim>\<open>engine.connect()\<close> do when
    \<open>n\<close> attempts were made before;
  \<^item> \<open>to_sql_failure\<close>, \<open>execute_failure\<close>: the exception of the store for a frame or
    a statement it rejects.
\<close>

record environment =
  to_numeric_value :: "cell \<Rightarrow> rat option"
  to_datetime_value :: "cell \<Rightarrow> int option"
  str_value :: "cell \<Rightarrow> string"
  astype_generic :: "string \<Rightarrow> series \<Rightarrow> exn + series"
  re_match :: "string \<Rightarrow> exn + (string \<Rightarrow> bool)"
  timestamp :: string
  connect_outcome :: "nat \<Rightarrow> attempt"
  to_sql_failure :: "dataframe \<Rightarrow> exn option"
  execute_failure :: "string \<Rightarrow> exn option"

text \<open>The world before a run, with nothing logged and no connection, over a given file
  system; and a file system with the three directories and no file.\<close>

definition empty_fs :: filesystem where
  "empty_fs = \<lparr>directories = [''in'', ''archive'', ''error''], read_only = [], files = []\<rparr>"

definition world0 :: "filesystem \<Rightarrow> unit world" where
  "world0 f = \<lparr>fs = f, tables = [], db_calls = [], attempts = 0, engine = None,
               connection = False, logger = [], sleeps = [], custom_state = ()\<rparr>"

definition log_msg :: "level \<Rightarrow> string \<Rightarrow> 'u world \<Rightarrow> 'u world" where
  "log_msg l m w = w\<lparr>logger := logger w @ [(l, m)]\<rparr>"

section \<open>Transformer\<close>

subsection \<open>The pandas operations the Transformer calls\<close>

text \<open>\<^verbatim>\<open>pd.to_datetime(s, errors='coerce')\<close> and \<^verbatim>\<open>pd.to_numeric(s, errors='coerce')\<close>: a cell
  that does not parse becomes null.\<close>

definition to_datetime_coerce :: "environment \<Rightarrow> series \<Rightarrow> series" where
  "to_datetime_coerce E s =
     map (\<lambda>c. case to_datetime_value E c of None \<Rightarrow> NA | Some t \<Rightarrow> TimeV t) s"

definition to_numeric_coerce :: "environment \<Rightarrow> series \<Rightarrow> series" where
  "to_numeric_coerce E s =
     map (\<lambda>c. case to_numeric_value E c of None \<Rightarrow> NA | Some r \<Rightarrow> FloatV r) s"

definition astype_float :: "series \<Rightarrow> series" where
  "astype_float s = map (\<lambda>c. case c of IntV i \<Rightarrow> FloatV (of_int i) | _ \<Rightarrow> c) s"

definition is_integral :: "rat \<Rightarrow> bool" where
  "is_integral r = (of_int \<lfloor>r\<rfloor> = r)"

definition fractional :: "cell \<Rightarrow> bool" where
  "fractional c = (case c of FloatV r \<Rightarrow> \<not> is_integral r | _ \<Rightarrow> False)"

text \<open>\<^verbatim>\<open>astype('Int64')\<close> of a numeric column: pandas refuses to cast a float that is not a
  whole number.\<close>

definition astype_Int64 :: "series \<Rightarrow> exn + series" where
  "astype_Int64 s =
     (if list_ex fractional s
      then Inl (Exn TypeError ''cannot safely cast non-equivalent float64 to int64'')
      else Inr (map (\<lambda>c. case c of FloatV r \<Rightarrow> IntV \<lfloor>r\<rfloor> | _ \<Rightarrow> c) s))"

definition astype_str :: "environment \<Rightarrow> series \<Rightarrow> series" where
  "astype_str E s = map (\<lambda>c. StrV (str_value E c)) s"

text \<open>\<^verbatim>\<open>astype(bool)\<close> takes the truth value of each cell; NaN is true.\<close>

definition truthy :: "cell \<Rightarrow> bool" where
  "truthy c = (case c of NA \<Rightarrow> True | IntV i \<Rightarrow> i \<noteq> 0 | FloatV r \<Rightarrow> r \<noteq> 0
               | StrV s \<Rightarrow> s \<noteq> [] | BoolV b \<Rightarrow> b | TimeV t \<Rightarrow> True)"

definition astype_bool :: "series \<Rightarrow> series" where
  "astype_bool s = map (\<lambda>c. BoolV (truthy c)) s"

definition fillna :: "series \<Rightarrow> cell \<Rightarrow> series" where
  "fillna s v = map (\<lambda>c. if c = NA then v else c) s"

text \<open>The numbers of a column, nulls skipped, as \<^verbatim>\<open>min()\<close> and \<^verbatim>\<open>max()\<close> see them; comparing
  text or timestamps with a number raises \<^verbatim>\<open>TypeError\<close>.\<close>

definition cell_number :: "cell \<Rightarrow> rat option" where
  "cell_number c = (case c of IntV i \<Rightarrow> Some (of_int i) | FloatV r \<Rightarrow> Some r
                    | BoolV b \<Rightarrow> Some (if b then 1 else 0) | _ \<Rightarrow> None)"

definition numeric_values :: "series \<Rightarrow> exn + rat list" where
  "numeric_values s =
     (if list_ex (\<lambda>c. c \<noteq> NA \<and> cell_number c = None) s
      then Inl (Exn TypeError ''not supported between instances of str and int'')
      else Inr (List.map_filter cell_number s))"

subsection \<open>Transformations\<close>

type_synonym params = "(string \<times> cell) list"

type_synonym registry = "string \<Rightarrow> (dataframe \<Rightarrow> params \<Rightarrow> exn + dataframe) option"

text \<open>One entry of the \<^verbatim>\<open>transformations\<close> list, by its \<^verbatim>\<open>"type"\<close>; \<open>OtherT\<close> is any other
  type, with its text. A dict is the list of its items in order.\<close>

datatype transformation =
    RenameColumns "(string \<times> string) list"
  | DropColumns "string list"
  | FillNa "(string \<times> cell) list"
  | ConvertTypes "(string \<times> string) list"
  | CustomT string params
  | OtherT string

definition register_transformation ::
  "registry \<Rightarrow> string \<Rightarrow> (dataframe \<Rightarrow> params \<Rightarrow> exn + dataframe) \<Rightarrow> registry" where
  "register_transformation reg n f = reg(n \<mapsto> f)"

definition rename_columns :: "dataframe \<Rightarrow> (string \<times> string) list \<Rightarrow> dataframe" where
  "rename_columns df mapping =
     map (\<lambda>(n, s). ((case map_of mapping n of None \<Rightarrow> n | Some n' \<Rightarrow> n'), s)) df"

definition drop_columns :: "dataframe \<Rightarrow> string list \<Rightarrow> dataframe" where
  "drop_columns df cols = filter (\<lambda>(n, s). n \<notin> set cols) df"

fun fill_na :: "dataframe \<Rightarrow> (string \<times> cell) list \<Rightarrow> dataframe" where
  "fill_na df [] = df"
| "fill_na df ((column, v) # rest) =
     fill_na (case map_of df column of None \<Rightarrow> df
              | Some s \<Rightarrow> setitem df column (fillna s v)) rest"

text \<open>The \<^verbatim>\<open>if\<close>/\<^verbatim>\<open>elif\<close> chain inside the \<^verbatim>\<open>try\<close> of \<^verbatim>\<open>_convert_types\<close>, for one column.\<close>

definition convert_series :: "environment \<Rightarrow> string \<Rightarrow> series \<Rightarrow> exn + series" where
  "convert_series E dtype s =
     (if dtype = ''datetime'' then Inr (to_datetime_coerce E s)
      else if dtype = ''float'' then Inr (astype_float (to_numeric_coerce E s))
      else if dtype = ''int'' then astype_Int64 (to_numeric_coerce E s)
      else if dtype = ''str'' then Inr (astype_str E s)
      else if dtype = ''bool'' then Inr (astype_bool s)
      else astype_generic E dtype s)"

definition convert_error_msg :: "string \<Rightarrow> string \<Rightarrow> exn \<Rightarrow> string" where
  "convert_error_msg column dtype e =
     ''Error converting column '' @ repr column @ '' to type '' @ repr dtype @ '': ''
       @ str_exn e"

fun convert_types ::
  "environment \<Rightarrow> dataframe \<Rightarrow> (string \<times> string) list \<Rightarrow> 'u world
     \<Rightarrow> (exn + dataframe) \<times> 'u world" where
  "convert_types E df [] w = (Inr df, w)"
| "convert_types E df ((column, dtype) # rest) w =
     (case map_of df column of
        None \<Rightarrow>
          convert_types E df rest
            (log_msg WARNING (''Column '' @ repr column @ '' not found for type conversion'') w)
      | Some s \<Rightarrow>
          (case convert_series E dtype s of
             Inl e \<Rightarrow> (Inl (Exn TransformationError (convert_error_msg column dtype e)),
                       log_msg ERROR (convert_error_msg column dtype e) w)
           | Inr s' \<Rightarrow> convert_types E (setitem df column s') rest w))"

text \<open>The \<^verbatim>\<open>for\<close> loop of \<^verbatim>\<open>Transformer.transform\<close>.\<close>

fun apply_transformations ::
  "environment \<Rightarrow> registry \<Rightarrow> dataframe \<Rightarrow> transformation list \<Rightarrow> 'u world
     \<Rightarrow> (exn + dataframe) \<times> 'u world" where
  "apply_transformations E reg df [] w = (Inr df, w)"
| "apply_transformations E reg df (RenameColumns mapping # ts) w =
     apply_transformations E reg (rename_columns df mapping) ts w"
| "apply_transformations E reg df (DropColumns cols # ts) w =
     apply_transformations E reg (drop_columns df cols) ts w"
| "apply_transformations E reg df (FillNa cols # ts) w =
     apply_transformations E reg (fill_na df cols) ts w"
| "apply_transformations E reg df (ConvertTypes type_mapping # ts) w =
     (case convert_types E df type_mapping w of
        (Inl e, w1) \<Rightarrow> (Inl e, w1)
      | (Inr df1, w1) \<Rightarrow> apply_transformations E reg df1 ts w1)"
| "apply_transformations E reg df (CustomT n ps # ts) w =
     (case reg n of
        Some f \<Rightarrow> (case f df ps of
                     Inl e \<Rightarrow> (Inl e, w)
                   | Inr df1 \<Rightarrow> apply_transformations E reg df1 ts w)
      | None \<Rightarrow> apply_transformations E reg df ts
                 (log_msg WARNING (''Custom transformation '' @ repr n @ '' not found'') w))"
| "apply_transformations E reg df (OtherT t_type # ts) w =
     apply_transformations E reg df ts
       (log_msg WARNING (''Unknown transformation type: '' @ t_type) w)"

definition transform ::
  "environment \<Rightarrow> registry \<Rightarrow> dataframe \<Rightarrow> transformation list \<Rightarrow> 'u world
     \<Rightarrow> (exn + dataframe) \<times> 'u world" where
  "transform E reg df transformations w =
     (case apply_transformations E reg df transformations w of
        (Inr transformed_df, w1) \<Rightarrow>
          (Inr transformed_df,
           log_msg INFO (''Applied '' @ str_nat (length transformations) @ '' transformations'') w1)
      | (Inl e, w1) \<Rightarrow>
          (Inl (Exn TransformationError (''Error during transformation: '' @ str_exn e)),
           log_msg ERROR (''Error during transformation: '' @ str_exn e) w1))"

subsection \<open>Validation rules\<close>

text \<open>
  One entry of the \<^verbatim>\<open>validations\<close> list, by its \<^verbatim>\<open>"type"\<close>. The bounds of a range rule are
  numbers. The function of a custom rule may raise and may have effects of its own, on
  the custom state; its second field is the \<^verbatim>\<open>"message"\<close>, if given.
\<close>

datatype 'u validation =
    NotNull "string list"
  | Unique "string list"
  | RangeV string "rat option" "rat option"
  | Regex string string
  | CustomV "dataframe \<Rightarrow> 'u \<Rightarrow> (exn + bool) \<times> 'u" "string option"
  | OtherV string

fun check_not_null :: "dataframe \<Rightarrow> string list \<Rightarrow> exn + unit" where
  "check_not_null df [] = Inr ()"
| "check_not_null df (column # cols) =
     (case getitem df column of
        Inl e \<Rightarrow> Inl e
      | Inr s \<Rightarrow>
          if NA \<in> set s
          then Inl (Exn ValidationError (''Column '' @ repr column @ '' contains NULL values''))
          else check_not_null df cols)"

fun check_unique :: "dataframe \<Rightarrow> string list \<Rightarrow> exn + unit" where
  "check_unique df [] = Inr ()"
| "check_unique df (column # cols) =
     (case getitem df column of
        Inl e \<Rightarrow> Inl e
      | Inr s \<Rightarrow>
          if \<not> distinct s
          then Inl (Exn ValidationError
                 (''Column '' @ repr column @ '' contains duplicate values''))
          else check_unique df cols)"

text \<open>\<^verbatim>\<open>df[column].min() < min_val\<close> and \<^verbatim>\<open>df[column].max() > max_val\<close>; a column without
  numbers has the minimum and maximum NaN, which compares false.\<close>

definition min_below :: "dataframe \<Rightarrow> string \<Rightarrow> rat \<Rightarrow> exn + bool" where
  "min_below df column min_val =
     (case getitem df column of
        Inl e \<Rightarrow> Inl e
      | Inr s \<Rightarrow> (case numeric_values s of
                   Inl e \<Rightarrow> Inl e
                 | Inr vs \<Rightarrow> Inr (list_ex (\<lambda>v. v < min_val) vs)))"

definition max_above :: "dataframe \<Rightarrow> string \<Rightarrow> rat \<Rightarrow> exn + bool" where
  "max_above df column max_val =
     (case getitem df column of
        Inl e \<Rightarrow> Inl e
      | Inr s \<Rightarrow> (case numeric_values s of
                   Inl e \<Rightarrow> Inl e
                 | Inr vs \<Rightarrow> Inr (list_ex (\<lambda>v. max_val < v) vs)))"

definition check_max ::
  "environment \<Rightarrow> dataframe \<Rightarrow> string \<Rightarrow> rat option \<Rightarrow> exn + unit" where
  "check_max E df column max_val =
     (case max_val of
        None \<Rightarrow> Inr ()
      | Some mx \<Rightarrow>
          (case max_above df column mx of
             Inl e \<Rightarrow> Inl e
           | Inr True \<Rightarrow> Inl (Exn ValidationError (''Column '' @ repr column
                          @ '' contains values above maximum '' @ str_value E (FloatV mx)))
           | Inr False \<Rightarrow> Inr ()))"

definition check_range ::
  "environment \<Rightarrow> dataframe \<Rightarrow> string \<Rightarrow> rat option \<Rightarrow> rat option \<Rightarrow> exn + unit" where
  "check_range E df column min_val max_val =
     (case min_val of
        None \<Rightarrow> check_max E df column max_val
      | Some mn \<Rightarrow>
          (case min_below df column mn of
             Inl e \<Rightarrow> Inl e
           | Inr True \<Rightarrow> Inl (Exn ValidationError (''Column '' @ repr column
                          @ '' contains values below minimum '' @ str_value E (FloatV mn)))
           | Inr False \<Rightarrow> check_max E df column max_val))"

definition check_regex :: "environment \<Rightarrow> dataframe \<Rightarrow> string \<Rightarrow> string \<Rightarrow> exn + unit" where
  "check_regex E df column pattern =
     (case getitem df column of
        Inl e \<Rightarrow> Inl e
      | Inr s \<Rightarrow>
          (case re_match E pattern of
             Inl e \<Rightarrow> Inl e
           | Inr matches \<Rightarrow>
               if list_all (\<lambda>c. matches (str_value E c)) s then Inr ()
               else Inl (Exn ValidationError (''Column '' @ repr column
                      @ '' contains values not matching pattern '' @ repr pattern))))"

text \<open>The body of the \<^verbatim>\<open>for validation in validations\<close> loop, for one rule.\<close>

fun check_rule ::
  "environment \<Rightarrow> dataframe \<Rightarrow> 'u validation \<Rightarrow> 'u \<Rightarrow> (exn + unit) \<times> 'u" where
  "check_rule E df (NotNull cols) u = (check_not_null df cols, u)"
| "check_rule E df (Unique cols) u = (check_unique df cols, u)"
| "check_rule E df (RangeV column min_val max_val) u =
     (check_range E df column min_val max_val, u)"
| "check_rule E df (Regex column pattern) u = (check_regex E df column pattern, u)"
| "check_rule E df (CustomV validation_fn message) u =
     (case validation_fn df u of
        (Inl e, u1) \<Rightarrow> (Inl e, u1)
      | (Inr True, u1) \<Rightarrow> (Inr (), u1)
      | (Inr False, u1) \<Rightarrow>
          (Inl (Exn ValidationError (''Custom validation failed: ''
             @ (case message of None \<Rightarrow> ''No message provided'' | Some m \<Rightarrow> m))), u1))"
| "check_rule E df (OtherV v_type) u = (Inr (), u)"

fun check_rules ::
  "environment \<Rightarrow> dataframe \<Rightarrow> 'u validation list \<Rightarrow> 'u \<Rightarrow> (exn + unit) \<times> 'u" where
  "check_rules E df [] u = (Inr (), u)"
| "check_rules E df (v # vs) u =
     (case check_rule E df v u of
        (Inl e, u1) \<Rightarrow> (Inl e, u1)
      | (Inr _, u1) \<Rightarrow> check_rules E df vs u1)"

definition validate_data ::
  "environment \<Rightarrow> dataframe \<Rightarrow> 'u validation list \<Rightarrow> 'u world \<Rightarrow> (exn + bool) \<times> 'u world" where
  "validate_data E df validations w =
     (case check_rules E df validations (custom_state w) of
        (Inr _, u1) \<Rightarrow>
          (Inr True, log_msg INFO (''Data passed '' @ str_nat (length validations)
                       @ '' validations'') (w\<lparr>custom_state := u1\<rparr>))
      | (Inl e, u1) \<Rightarrow>
          if cls e = ValidationError then (Inl e, w\<lparr>custom_state := u1\<rparr>)
          else (Inl (Exn ValidationError (''Error during validation: '' @ str_exn e)),
                log_msg ERROR (''Error during validation: '' @ str_exn e)
                  (w\<lparr>custom_state := u1\<rparr>)))"


section \<open>Extractor\<close>

record extractor =
  input_dir :: string
  archive_dir :: string
  error_dir :: string

text \<open>\<^verbatim>\<open>list(self.input_dir.glob("*.csv"))\<close>: the entries of the directory whose names end in
  \<^verbatim>\<open>.csv\<close>, in the order of the enumeration; no sort is applied.\<close>

definition glob_csv :: "filesystem \<Rightarrow> string \<Rightarrow> path list" where
  "glob_csv f d =
     map fst (filter (\<lambda>(p, c). parent p = d \<and> endswith (name p) ''.csv'') (files f))"

definition list_csv_files :: "extractor \<Rightarrow> 'u world \<Rightarrow> (exn + path list) \<times> 'u world" where
  "list_csv_files ex w =
     (let w1 = log_msg INFO (''Searching for CSV files in '' @ input_dir ex) w in
      if input_dir ex \<notin> set (directories (fs w1)) then
        (Inl (Exn ExtractionError (''Input directory '' @ input_dir ex @ '' does not exist'')),
         log_msg ERROR (''Input directory '' @ input_dir ex @ '' does not exist'') w1)
      else
        (let csv_files = glob_csv (fs w1) (input_dir ex)
         in (Inr csv_files,
             log_msg INFO (''Found '' @ str_nat (length csv_files) @ '' CSV files in ''
                           @ input_dir ex) w1)))"

definition open_file :: "filesystem \<Rightarrow> path \<Rightarrow> exn + csv_file" where
  "open_file f p =
     (case map_of (files f) p of
        None \<Rightarrow> Inl (Exn OSError (''[Errno 2] No such file or directory: '' @ repr (str_path p)))
      | Some c \<Rightarrow> Inr c)"

definition get_csv_schema ::
  "extractor \<Rightarrow> path \<Rightarrow> 'u world \<Rightarrow> (exn + string list) \<times> 'u world" where
  "get_csv_schema ex file_path w =
     (case (case open_file (fs w) file_path of Inl e \<Rightarrow> Inl e | Inr c \<Rightarrow> header_row c) of
        Inr header \<Rightarrow> (Inr (map strip header), w)
      | Inl e \<Rightarrow>
          (Inl (Exn ExtractionError (''Failed to read schema from '' @ str_path file_path
                  @ '': '' @ str_exn e)),
           log_msg ERROR (''Failed to read schema from '' @ str_path file_path
                  @ '': '' @ str_exn e) w))"

fun join :: "string \<Rightarrow> string list \<Rightarrow> string" where
  "join sep [] = []"
| "join sep [x] = x"
| "join sep (x # y # ys) = x @ sep @ join sep (y # ys)"

text \<open>The text of a set of strings, its elements in the order of the expected schema
  (Python fixes no order for them).\<close>

definition repr_set :: "string list \<Rightarrow> string" where
  "repr_set xs = ''{'' @ join '', '' (map repr xs) @ ''}''"

definition repr_list :: "string list \<Rightarrow> string" where
  "repr_list xs = ''['' @ join '', '' (map repr xs) @ '']''"

definition validate_schema :: "string list \<Rightarrow> string list option \<Rightarrow> exn + bool" where
  "validate_schema schema expected_schema =
     (if expected_schema = None \<or> expected_schema = Some [] then
        (if schema = [] then Inl (Exn ValidationError ''CSV has no columns'') else Inr True)
      else
        (let missing_columns = filter (\<lambda>c. c \<notin> set schema) (remdups (the expected_schema)) in
         if missing_columns \<noteq> []
         then Inl (Exn ValidationError (''Missing expected columns: '' @ repr_set missing_columns))
         else Inr True))"

text \<open>\<^verbatim>\<open>shutil.move\<close> of a file into a directory that exists and can be written to.\<close>

definition shutil_move :: "filesystem \<Rightarrow> path \<Rightarrow> path \<Rightarrow> exn + filesystem" where
  "shutil_move f src dst =
     (case map_of (files f) src of
        None \<Rightarrow> Inl (Exn OSError (''[Errno 2] No such file or directory: ''
                      @ repr (str_path src)))
      | Some c \<Rightarrow>
          if parent dst \<notin> set (directories f) then
            Inl (Exn OSError (''[Errno 2] No such file or directory: '' @ repr (str_path dst)))
          else if parent dst \<in> set (read_only f) then
            Inl (Exn OSError (''[Errno 13] Permission denied: '' @ repr (str_path dst)))
          else Inr (f\<lparr>files := filter (\<lambda>(p, x). p \<noteq> src \<and> p \<noteq> dst) (files f) @ [(dst, c)]\<rparr>))"

definition archive_file ::
  "environment \<Rightarrow> extractor \<Rightarrow> path \<Rightarrow> 'u world \<Rightarrow> (exn + path) \<times> 'u world" where
  "archive_file E ex file_path w =
     (let archive_filename = stem file_path @ ''_'' @ timestamp E @ suffix file_path;
          archive_path = joinpath (archive_dir ex) archive_filename
      in case shutil_move (fs w) file_path archive_path of
           Inr f \<Rightarrow>
             (Inr archive_path,
              log_msg INFO (''Archived '' @ str_path file_path @ '' to '' @ str_path archive_path)
                (w\<lparr>fs := f\<rparr>))
         | Inl e \<Rightarrow>
             (Inl (Exn ExtractionError (''Failed to archive '' @ str_path file_path @ '': ''
                     @ str_exn e)),
              log_msg ERROR (''Failed to archive '' @ str_path file_path @ '': '' @ str_exn e) w))"

text \<open>\<^verbatim>\<open>_move_file_to_error\<close>: both the \<^verbatim>\<open>try\<close> block and the \<^verbatim>\<open>except Exception\<close> clause end
  in a \<^verbatim>\<open>return\<close>.\<close>

definition move_file_to_error ::
  "environment \<Rightarrow> extractor \<Rightarrow> path \<Rightarrow> 'u world \<Rightarrow> (exn + path) \<times> 'u world" where
  "move_file_to_error E ex file_path w =
     (let error_filename = stem file_path @ ''_error_'' @ timestamp E @ suffix file_path;
          error_path = joinpath (error_dir ex) error_filename
      in case shutil_move (fs w) file_path error_path of
           Inr f \<Rightarrow>
             (Inr error_path,
              log_msg INFO (''Moved failed file '' @ str_path file_path @ '' to ''
                            @ str_path error_path) (w\<lparr>fs := f\<rparr>))
         | Inl e \<Rightarrow>
             (Inr file_path,
              log_msg ERROR (''Failed to move '' @ str_path file_path @ '' to error directory: ''
                             @ str_exn e) w))"

text \<open>
  \<^verbatim>\<open>extract_from_file\<close> is a generator: its body runs when the consumer asks for a chunk.
  \<^item> \<open>extraction_failed\<close> is its \<^verbatim>\<open>except Exception\<close> clause: log, quarantine, raise
    \<^verbatim>\<open>ExtractionError\<close>. An exception of \<^verbatim>\<open>_move_file_to_error\<close> would leave the clause
    in place of the \<^verbatim>\<open>ExtractionError\<close>.
  \<^item> \<open>extract_from_file\<close> is the body up to the creation of the reader, run on the first
    request: it raises, or gives what the reader will yield.
  \<^item> What the generator does on each request is the case distinction of \<open>process_batches\<close>
    below: the reader is exhausted (the generator logs and returns), the reader raises
    (the \<^verbatim>\<open>except\<close> clause runs), or the reader gives a chunk (\<^verbatim>\<open>yield chunk\<close>).
  An exception of the consumer never enters the generator.
\<close>

definition extraction_failed ::
  "environment \<Rightarrow> extractor \<Rightarrow> path \<Rightarrow> exn \<Rightarrow> 'u world \<Rightarrow> exn \<times> 'u world" where
  "extraction_failed E ex file_path e w =
     (let error_msg = ''Error extracting data from '' @ str_path file_path @ '': '' @ str_exn e;
          w1 = log_msg ERROR error_msg w
      in case move_file_to_error E ex file_path w1 of
           (Inl e', w2) \<Rightarrow> (e', w2)
         | (Inr p, w2) \<Rightarrow> (Exn ExtractionError error_msg, w2))"

definition read_csv :: "filesystem \<Rightarrow> path \<Rightarrow> (exn + dataframe) list" where
  "read_csv f p = (case open_file f p of Inl e \<Rightarrow> [Inl e] | Inr c \<Rightarrow> batches c)"

definition extract_from_file ::
  "environment \<Rightarrow> extractor \<Rightarrow> path \<Rightarrow> string list option \<Rightarrow> 'u world
     \<Rightarrow> (exn + (exn + dataframe) list) \<times> 'u world" where
  "extract_from_file E ex file_path expected_schema w =
     (let w1 = log_msg INFO (''Extracting data from '' @ str_path file_path) w in
      case get_csv_schema ex file_path w1 of
        (Inl e, w2) \<Rightarrow> (case extraction_failed E ex file_path e w2 of (x, w3) \<Rightarrow> (Inl x, w3))
      | (Inr schema, w2) \<Rightarrow>
          (case validate_schema schema expected_schema of
             Inl e \<Rightarrow> (case extraction_failed E ex file_path e w2 of (x, w3) \<Rightarrow> (Inl x, w3))
           | Inr _ \<Rightarrow> (Inr (read_csv (fs w2) file_path), w2)))"


section \<open>Loader\<close>

record db_config =
  db_type :: string
  host :: string
  port :: int
  database :: string
  user :: string
  password :: string
  connection_timeout :: int
  max_retries :: int
  retry_delay :: int

text \<open>
  The \<^verbatim>\<open>try\<close> block of one connection attempt: the exception it raises, if any, and the
  world it leaves. \<^verbatim>\<open>self.engine\<close> is assigned before \<^verbatim>\<open>engine.connect()\<close> is called.
\<close>

definition try_connect ::
  "environment \<Rightarrow> db_config \<Rightarrow> string \<Rightarrow> 'u world \<Rightarrow> exn option \<times> 'u world" where
  "try_connect E cfg conn_str w =
     (let w1 = log_msg INFO (''Connecting to '' @ db_type cfg @ '' database at '' @ host cfg
                 @ '':'' @ str_int (port cfg) @ ''/'' @ database cfg) w;
          w2 = w1\<lparr>attempts := Suc (attempts w1)\<rparr>
      in case connect_outcome E (attempts w) of
           EngineFails e \<Rightarrow> (Some e, w2)
         | ConnectFails e \<Rightarrow> (Some e, w2\<lparr>engine := Some conn_str\<rparr>)
         | Connects \<Rightarrow>
             (None, log_msg INFO ''Database connection established''
                      (w2\<lparr>engine := Some conn_str, connection := True\<rparr>)))"

text \<open>The \<^verbatim>\<open>while retries < self.max_retries\<close> loop of \<^verbatim>\<open>Loader.connect\<close> and the
  statements after it.\<close>

function connect_loop ::
  "environment \<Rightarrow> db_config \<Rightarrow> string \<Rightarrow> int \<Rightarrow> string option \<Rightarrow> 'u world
     \<Rightarrow> (exn + unit) \<times> 'u world" where
  "connect_loop E cfg conn_str retries last_error w =
     (if retries < max_retries cfg then
        (case try_connect E cfg conn_str w of
           (None, w1) \<Rightarrow> (Inr (), w1)
         | (Some e, w1) \<Rightarrow>
             (let w2 = log_msg WARNING (''Connection attempt '' @ str_int (retries + 1)
                         @ '' failed: '' @ str_exn e) w1;
                  w3 = (if retries + 1 < max_retries cfg
                        then w2\<lparr>sleeps := sleeps w2 @ [retry_delay cfg]\<rparr> else w2)
              in connect_loop E cfg conn_str (retries + 1) (Some (str_exn e)) w3))
      else
        (let error_msg = ''Failed to connect to database after '' @ str_int (max_retries cfg)
                           @ '' attempts: '' @ str_opt last_error
         in (Inl (Exn DatabaseError error_msg), log_msg ERROR error_msg w)))"
  by pat_completeness auto
termination
  by (relation "measure (\<lambda>(E, cfg, conn_str, retries, last_error, w).
                  nat (max_retries cfg - retries))") auto

declare connect_loop.simps [simp del]

definition connect :: "environment \<Rightarrow> db_config \<Rightarrow> 'u world \<Rightarrow> (exn + unit) \<times> 'u world" where
  "connect E cfg w =
     (let rest = ''://'' @ user cfg @ '':'' @ password cfg @ ''@'' @ host cfg @ '':''
                   @ str_int (port cfg) @ ''/'' @ database cfg
      in if lower (db_type cfg) = ''postgresql'' then
           connect_loop E cfg (''postgresql'' @ rest) 0 None w
         else if lower (db_type cfg) = ''mysql'' then
           connect_loop E cfg (''mysql+pymysql'' @ rest) 0 None w
         else (Inl (Exn DatabaseError (''Unsupported database type: '' @ db_type cfg)), w))"



subsection \<open>Tables\<close>

text \<open>\<^verbatim>\<open>{schema+'.' if schema else ''}{table_name}\<close>; the store keeps its tables under this
  name.\<close>

definition qualified_name :: "string option \<Rightarrow> string \<Rightarrow> string" where
  "qualified_name schema table_name =
     (case schema of None \<Rightarrow> [] | Some s \<Rightarrow> if s = [] then [] else s @ ''.'') @ table_name"

definition ensure_engine ::
  "environment \<Rightarrow> db_config \<Rightarrow> 'u world \<Rightarrow> (exn + unit) \<times> 'u world" where
  "ensure_engine E cfg w = (if engine w = None then connect E cfg w else (Inr (), w))"

definition disconnect :: "'u world \<Rightarrow> 'u world" where
  "disconnect w = (if connection w then log_msg INFO ''Database connection closed'' w else w)"

definition table_exists ::
  "environment \<Rightarrow> db_config \<Rightarrow> string \<Rightarrow> string option \<Rightarrow> 'u world
     \<Rightarrow> (exn + bool) \<times> 'u world" where
  "table_exists E cfg table_name schema w =
     (case ensure_engine E cfg w of
        (Inl e, w1) \<Rightarrow> (Inl e, w1)
      | (Inr _, w1) \<Rightarrow> (Inr (qualified_name schema table_name \<in> set (map fst (tables w1))), w1))"

definition no_engine :: exn where
  "no_engine = Exn OtherException ''NoneType object has no engine''"

text \<open>\<^verbatim>\<open>with self.engine.begin() as conn: conn.execute(sql)\<close>\<close>

definition engine_execute ::
  "environment \<Rightarrow> string \<Rightarrow> 'u world \<Rightarrow> (exn + unit) \<times> 'u world" where
  "engine_execute E sql w =
     (if engine w = None then (Inl no_engine, w)
      else (let w1 = w\<lparr>db_calls := db_calls w @ [Execute sql]\<rparr> in
            case execute_failure E sql of
              Some e \<Rightarrow> (Inl e, w1)
            | None \<Rightarrow> (Inr (), w1)))"

definition set_table ::
  "string \<Rightarrow> dataframe list \<Rightarrow> (string \<times> dataframe list) list
     \<Rightarrow> (string \<times> dataframe list) list" where
  "set_table n chunks ts = map (\<lambda>(m, c). if m = n then (m, chunks) else (m, c)) ts"

text \<open>\<^verbatim>\<open>DataFrame.to_sql(name, engine, schema=..., if_exists=...)\<close>: a missing table is
  created; an existing one is refused, emptied first or appended to.\<close>

definition to_sql ::
  "environment \<Rightarrow> dataframe \<Rightarrow> string \<Rightarrow> if_exists \<Rightarrow> 'u world \<Rightarrow> (exn + unit) \<times> 'u world" where
  "to_sql E df tname policy w =
     (if engine w = None then (Inl no_engine, w)
      else (let w1 = w\<lparr>db_calls := db_calls w @ [ToSql tname policy (len_df df)]\<rparr> in
            case to_sql_failure E df of
              Some e \<Rightarrow> (Inl e, w1)
            | None \<Rightarrow>
                (case map_of (tables w1) tname of
                   None \<Rightarrow> (Inr (), w1\<lparr>tables := tables w1 @ [(tname, [df])]\<rparr>)
                 | Some chunks \<Rightarrow>
                     (case policy of
                        Fail \<Rightarrow> (Inl (Exn ValueError (''Table '' @ repr tname
                                       @ '' already exists.'')), w1)
                      | Replace \<Rightarrow> (Inr (), w1\<lparr>tables := set_table tname [df] (tables w1)\<rparr>)
                      | Append \<Rightarrow>
                          (Inr (), w1\<lparr>tables := set_table tname (chunks @ [df]) (tables w1)\<rparr>)))))"

definition drop_table ::
  "environment \<Rightarrow> string \<Rightarrow> string option \<Rightarrow> 'u world \<Rightarrow> (exn + unit) \<times> 'u world" where
  "drop_table E table_name schema w =
     (let qualified_table = qualified_name schema table_name;
          sql = ''DROP TABLE IF EXISTS '' @ qualified_table
      in case engine_execute E sql w of
           (Inr _, w1) \<Rightarrow>
             (Inr (), log_msg INFO (''Dropped table '' @ qualified_table)
                        (w1\<lparr>tables := filter (\<lambda>(n, c). n \<noteq> qualified_table) (tables w1)\<rparr>))
         | (Inl e, w1) \<Rightarrow>
             (Inl (Exn DatabaseError (''Error dropping table '' @ qualified_table @ '': ''
                     @ str_exn e)),
              log_msg ERROR (''Error dropping table '' @ qualified_table @ '': '' @ str_exn e) w1))"

text \<open>\<^verbatim>\<open>_add_primary_key\<close>; the empty list stands for no primary key.\<close>

definition add_primary_key ::
  "environment \<Rightarrow> string \<Rightarrow> string option \<Rightarrow> string list \<Rightarrow> 'u world
     \<Rightarrow> (exn + unit) \<times> 'u world" where
  "add_primary_key E table_name schema primary_key w =
     (if primary_key = [] then (Inr (), w)
      else
        (let pk_name = ''pk_'' @ table_name;
             qualified_table = qualified_name schema table_name;
             sql = ''ALTER TABLE '' @ qualified_table @ '' ADD CONSTRAINT '' @ pk_name
                     @ '' PRIMARY KEY ('' @ join '', '' primary_key @ '')''
         in case engine_execute E sql w of
              (Inr _, w1) \<Rightarrow>
                (Inr (), log_msg INFO (''Added primary key '' @ repr_list primary_key
                           @ '' to table '' @ qualified_table) w1)
            | (Inl e, w1) \<Rightarrow>
                (Inl (Exn DatabaseError (''Error adding primary key to '' @ qualified_table
                        @ '': '' @ str_exn e)),
                 log_msg ERROR (''Error adding primary key to '' @ qualified_table
                        @ '': '' @ str_exn e) w1)))"

definition create_table_failed :: "string \<Rightarrow> exn \<Rightarrow> 'u world \<Rightarrow> (exn + unit) \<times> 'u world" where
  "create_table_failed qualified_table e w =
     (Inl (Exn DatabaseError (''Error creating table '' @ qualified_table @ '': '' @ str_exn e)),
      log_msg ERROR (''Error creating table '' @ qualified_table @ '': '' @ str_exn e) w)"

definition create_table_from_dataframe ::
  "environment \<Rightarrow> db_config \<Rightarrow> dataframe \<Rightarrow> string \<Rightarrow> string option \<Rightarrow> if_exists
     \<Rightarrow> string list \<Rightarrow> 'u world \<Rightarrow> (exn + unit) \<times> 'u world" where
  "create_table_from_dataframe E cfg df table_name schema policy primary_key w =
     (let q = qualified_name schema table_name in
      case table_exists E cfg table_name schema w of
        (Inl e, w1) \<Rightarrow> create_table_failed q e w1
      | (Inr present, w1) \<Rightarrow>
          (case (if present then
                   (case policy of
                      Fail \<Rightarrow> (Inl (Exn DatabaseError (''Table '' @ table_name
                                     @ '' already exists'')), w1)
                    | Replace \<Rightarrow> drop_table E table_name schema w1
                    | Append \<Rightarrow> (Inr (), w1))
                 else (Inr (), w1)) of
             (Inl e, w2) \<Rightarrow> create_table_failed q e w2
           | (Inr _, w2) \<Rightarrow>
               (case to_sql E (head0 df) q Replace w2 of
                  (Inl e, w3) \<Rightarrow> create_table_failed q e w3
                | (Inr _, w3) \<Rightarrow>
                    (case add_primary_key E table_name schema primary_key w3 of
                       (Inl e, w4) \<Rightarrow> create_table_failed q e w4
                     | (Inr _, w4) \<Rightarrow> (Inr (), log_msg INFO (''Created table '' @ q) w4)))))"

definition load_failed :: "string \<Rightarrow> exn \<Rightarrow> 'u world \<Rightarrow> (exn + nat) \<times> 'u world" where
  "load_failed qualified_table e w =
     (Inl (Exn LoadError (''Error loading data into '' @ qualified_table @ '': '' @ str_exn e)),
      log_msg ERROR (''Error loading data into '' @ qualified_table @ '': '' @ str_exn e) w)"

text \<open>\<^verbatim>\<open>load_dataframe\<close>; the batching of the insert by \<^verbatim>\<open>chunk_size\<close> is inside \<open>to_sql\<close>.\<close>

definition load_dataframe ::
  "environment \<Rightarrow> db_config \<Rightarrow> dataframe \<Rightarrow> string \<Rightarrow> string option \<Rightarrow> if_exists
     \<Rightarrow> 'u world \<Rightarrow> (exn + nat) \<times> 'u world" where
  "load_dataframe E cfg df table_name schema policy w =
     (let q = qualified_name schema table_name in
      case ensure_engine E cfg w of
        (Inl e, w1) \<Rightarrow> load_failed q e w1
      | (Inr _, w1) \<Rightarrow>
          (case table_exists E cfg table_name schema w1 of
             (Inl e, w2) \<Rightarrow> load_failed q e w2
           | (Inr present, w2) \<Rightarrow>
               (case (if \<not> present \<and> policy \<noteq> Replace then
                        create_table_from_dataframe E cfg df table_name schema Replace []
                          (log_msg INFO (''Table '' @ q @ '' does not exist, creating it'') w2)
                      else (Inr (), w2)) of
                  (Inl e, w3) \<Rightarrow> load_failed q e w3
                | (Inr _, w3) \<Rightarrow>
                    (case to_sql E df q policy
                            (log_msg INFO (''Loading '' @ str_nat (len_df df) @ '' rows into ''
                                           @ q) w3) of
                       (Inl e, w4) \<Rightarrow> load_failed q e w4
                     | (Inr _, w4) \<Rightarrow>
                         (Inr (len_df df),
                          log_msg INFO (''Loaded '' @ str_nat (len_df df) @ '' rows into '' @ q)
                            w4)))))"

section \<open>Orchestration\<close>

record result =
  file_str :: string
  success :: bool
  rows_processed :: nat
  rows_loaded :: nat
  error :: "string option"

text \<open>The argument \<^verbatim>\<open>if_exists\<close> of the call of \<^verbatim>\<open>load_dataframe\<close> in \<^verbatim>\<open>process_file\<close>:
  \<^verbatim>\<open>"append" if batch_idx > 0 or extractor.list_csv_files().index(file_path) > 0 else "replace"\<close>.
  The directory is listed only when \<^verbatim>\<open>batch_idx > 0\<close> is false.\<close>

definition if_exists_arg ::
  "extractor \<Rightarrow> path \<Rightarrow> nat \<Rightarrow> 'u world \<Rightarrow> (exn + if_exists) \<times> 'u world" where
  "if_exists_arg ex file_path batch_idx w =
     (if batch_idx > 0 then (Inr Append, w)
      else
        (case list_csv_files ex w of
           (Inl e, w1) \<Rightarrow> (Inl e, w1)
         | (Inr csv_files, w1) \<Rightarrow>
             (case index_of csv_files file_path of
                None \<Rightarrow> (Inl (Exn ValueError (repr (str_path file_path) @ '' is not in list'')), w1)
              | Some i \<Rightarrow> (Inr (if i > 0 then Append else Replace), w1))))"

text \<open>The components and arguments that \<^verbatim>\<open>process_file\<close> is called with, but the file.\<close>

record 'u job =
  the_extractor :: extractor
  the_registry :: registry
  the_loader :: db_config
  transformations :: "transformation list"
  validations :: "'u validation list"
  table_name :: string
  schema :: "string option"

text \<open>The body of the \<^verbatim>\<open>for batch_idx, df in enumerate(...)\<close> loop, from \<^verbatim>\<open>Transform\<close> on:
  it raises, or gives \<^verbatim>\<open>rows_loaded\<close>.\<close>

definition process_batch ::
  "environment \<Rightarrow> 'u job \<Rightarrow> path \<Rightarrow> nat \<Rightarrow> dataframe \<Rightarrow> 'u world \<Rightarrow> (exn + nat) \<times> 'u world" where
  "process_batch E J file_path batch_idx df w =
     (case transform E (the_registry J) df (transformations J) w of
        (Inl e, w1) \<Rightarrow> (Inl e, w1)
      | (Inr transformed_df, w1) \<Rightarrow>
          (case (if validations J \<noteq> [] then validate_data E transformed_df (validations J) w1
                 else (Inr True, w1)) of
             (Inl e, w2) \<Rightarrow> (Inl e, w2)
           | (Inr _, w2) \<Rightarrow>
               (case if_exists_arg (the_extractor J) file_path batch_idx w2 of
                  (Inl e, w3) \<Rightarrow> (Inl e, w3)
                | (Inr policy, w3) \<Rightarrow>
                    load_dataframe E (the_loader J) transformed_df (table_name J) (schema J)
                      policy w3)))"

text \<open>The loop over the chunks of the generator, with \<^verbatim>\<open>total_rows\<close> and \<^verbatim>\<open>total_loaded\<close>.\<close>

fun process_batches ::
  "environment \<Rightarrow> 'u job \<Rightarrow> path \<Rightarrow> nat \<Rightarrow> nat \<Rightarrow> nat \<Rightarrow> (exn + dataframe) list \<Rightarrow> 'u world
     \<Rightarrow> (exn + nat \<times> nat) \<times> 'u world" where
  "process_batches E J file_path batch_idx total_rows total_loaded [] w =
     (Inr (total_rows, total_loaded),
      log_msg INFO (''Completed extraction from '' @ str_path file_path) w)"
| "process_batches E J file_path batch_idx total_rows total_loaded (Inl e # rest) w =
     (case extraction_failed E (the_extractor J) file_path e w of (x, w1) \<Rightarrow> (Inl x, w1))"
| "process_batches E J file_path batch_idx total_rows total_loaded (Inr df # rest) w =
     (let w1 = log_msg INFO (''Processing batch '' @ str_nat (batch_idx + 1) @ '' with ''
                 @ str_nat (len_df df) @ '' rows'') w
      in case process_batch E J file_path batch_idx df w1 of
           (Inl e, w2) \<Rightarrow> (Inl e, w2)
         | (Inr n, w2) \<Rightarrow>
             process_batches E J file_path (batch_idx + 1) (total_rows + len_df df)
               (total_loaded + n) rest
               (log_msg INFO (''Loaded '' @ str_nat n @ '' rows from batch ''
                  @ str_nat (batch_idx + 1)) w2))"

text \<open>The \<^verbatim>\<open>try\<close> block of \<^verbatim>\<open>process_file\<close>: it raises, or gives the two totals.\<close>

definition process_file_try ::
  "environment \<Rightarrow> 'u job \<Rightarrow> path \<Rightarrow> 'u world \<Rightarrow> (exn + nat \<times> nat) \<times> 'u world" where
  "process_file_try E J file_path w =
     (let w1 = log_msg INFO (''Starting ETL process for '' @ str_path file_path) w in
      case extract_from_file E (the_extractor J) file_path None w1 of
        (Inl e, w2) \<Rightarrow> (Inl e, w2)
      | (Inr chunks, w2) \<Rightarrow>
          (case process_batches E J file_path 0 0 0 chunks w2 of
             (Inl e, w3) \<Rightarrow> (Inl e, w3)
           | (Inr (total_rows, total_loaded), w3) \<Rightarrow>
               (case archive_file E (the_extractor J) file_path w3 of
                  (Inl e, w4) \<Rightarrow> (Inl e, w4)
                | (Inr _, w4) \<Rightarrow>
                    (Inr (total_rows, total_loaded),
                     log_msg INFO (''ETL process completed for '' @ str_path file_path @ '': ''
                       @ str_nat total_rows @ '' rows processed, '' @ str_nat total_loaded
                       @ '' rows loaded'') w4))))"

definition process_file ::
  "environment \<Rightarrow> 'u job \<Rightarrow> path \<Rightarrow> 'u world \<Rightarrow> result \<times> 'u world" where
  "process_file E J file_path w =
     (let r = \<lparr>file_str = str_path file_path, success = False, rows_processed = 0,
               rows_loaded = 0, error = None\<rparr>
      in case process_file_try E J file_path w of
           (Inr (total_rows, total_loaded), w1) \<Rightarrow>
             (r\<lparr>success := True, rows_processed := total_rows, rows_loaded := total_loaded\<rparr>, w1)
         | (Inl e, w1) \<Rightarrow>
             (let error_msg = (if is_ETLError e then ''ETL error processing ''
                               else ''Unexpected error processing '')
                              @ str_path file_path @ '': '' @ str_exn e
              in (r\<lparr>error := Some error_msg\<rparr>, log_msg ERROR error_msg w1)))"

text \<open>The sequential loop of \<^verbatim>\<open>main\<close>: \<^verbatim>\<open>for file in csv_files: results.append(process_file(...))\<close>.\<close>

fun process_files ::
  "environment \<Rightarrow> 'u job \<Rightarrow> path list \<Rightarrow> 'u world \<Rightarrow> result list \<times> 'u world" where
  "process_files E J [] w = ([], w)"
| "process_files E J (f # fs') w =
     (case process_file E J f w of
        (r, w1) \<Rightarrow> (case process_files E J fs' w1 of (rs, w2) \<Rightarrow> (r # rs, w2)))"

text \<open>The transformations and validations that \<^verbatim>\<open>main\<close> defines.\<close>

definition main_transformations :: "transformation list" where
  "main_transformations =
     [ConvertTypes [(''transaction_id'', ''int''), (''date'', ''datetime''),
        (''customer_id'', ''str''), (''product_id'', ''str''), (''product_name'', ''str''),
        (''quantity'', ''int''), (''unit_price'', ''float''), (''total_amount'', ''float'')],
      FillNa [(''quantity'', IntV 0), (''unit_price'', FloatV 0), (''total_amount'', FloatV 0)]]"

definition main_validations :: "'u validation list" where
  "main_validations = [NotNull [''transaction_id'', ''date'', ''customer_id'', ''product_id'']]"

record settings =
  csv :: extractor
  database_settings :: db_config
  parallel :: bool

record args =
  table_arg :: "string option"
  schema_arg :: "string option"

definition main_job :: "settings \<Rightarrow> args \<Rightarrow> 'u job" where
  "main_job S A =
     \<lparr>the_extractor = csv S, the_registry = Map.empty, the_loader = database_settings S,
      transformations = main_transformations, validations = main_validations,
      table_name = (case table_arg A of None \<Rightarrow> ''csv_data''
                    | Some t \<Rightarrow> if t = [] then ''csv_data'' else t),
      schema = schema_arg A\<rparr>"

text \<open>How \<^verbatim>\<open>main\<close> ends: it returns the results of the files (none when no file was found),
  it leaves through \<^verbatim>\<open>sys.exit(1)\<close>, or it hands the files to the thread pool, which is
  not modelled.\<close>

datatype outcome = Returned "result list" | Exit1 | ThreadPool "path list"

definition summarize :: "result list \<Rightarrow> 'u world \<Rightarrow> 'u world" where
  "summarize results w =
     (let successful = length (filter success results);
          total_rows = sum_list (map rows_processed results);
          total_loaded = sum_list (map rows_loaded results);
          w1 = log_msg INFO (''ETL pipeline completed. '' @ str_nat successful @ ''/''
                 @ str_nat (length results) @ '' files processed successfully.'') w;
          w2 = log_msg INFO (''Total rows processed: '' @ str_nat total_rows
                 @ '', total rows loaded: '' @ str_nat total_loaded) w1
      in if successful \<noteq> length results then
           fold (\<lambda>r. log_msg WARNING (''  '' @ file_str r @ '': ''
                        @ (case error r of None \<Rightarrow> ''None'' | Some m \<Rightarrow> m)))
             (filter (\<lambda>r. \<not> success r) results) (log_msg WARNING ''Failed files:'' w2)
         else w2)"

definition pipeline_failed :: "exn \<Rightarrow> 'u world \<Rightarrow> outcome \<times> 'u world" where
  "pipeline_failed e w = (Exit1, disconnect (log_msg ERROR (''ETL pipeline failed: '' @ str_exn e) w))"

definition main :: "environment \<Rightarrow> settings \<Rightarrow> args \<Rightarrow> 'u world \<Rightarrow> outcome \<times> 'u world" where
  "main E S A w =
     (case connect E (database_settings S) (log_msg INFO ''Starting ETL pipeline'' w) of
        (Inl e, w1) \<Rightarrow> pipeline_failed e w1
      | (Inr _, w1) \<Rightarrow>
          (case list_csv_files (csv S) w1 of
             (Inl e, w2) \<Rightarrow> pipeline_failed e w2
           | (Inr csv_files, w2) \<Rightarrow>
               if csv_files = [] then
                 (Returned [], disconnect (log_msg INFO ''No CSV files found to process'' w2))
               else
                 (let w3 = log_msg INFO (''Found '' @ str_nat (length csv_files)
                             @ '' CSV files to process'') w2
                  in if parallel S \<and> length csv_files > 1 then (ThreadPool csv_files, w3)
                     else
                       (case process_files E (main_job S A) csv_files
                               (log_msg INFO (''Processing '' @ str_nat (length csv_files)
                                  @ '' files sequentially'') w3) of
                          (results, w4) \<Rightarrow> (Returned results, disconnect (summarize results w4))))))"


section \<open>Notions used to state the properties\<close>




text \<open>The \<^verbatim>\<open>ValidationError\<close> that \<^verbatim>\<open>validate_data\<close> raises for the exception of a rule.\<close>

definition as_validation_error :: "exn \<Rightarrow> exn" where
  "as_validation_error e =
     (if cls e = ValidationError then e
      else Exn ValidationError (''Error during validation: '' @ str_exn e))"



text \<open>Relations between the world before and after an operation: the file system is the
  same and an engine, once created, stays; at most the file \<open>f\<close> was moved, and
  files appeared only in the archive and the error directory.\<close>

definition has_engine :: "'u world \<Rightarrow> bool" where
  "has_engine w = (engine w \<noteq> None)"

definition quiet :: "'u world \<Rightarrow> 'u world \<Rightarrow> bool" where
  "quiet w w' = (fs w' = fs w \<and> (has_engine w \<longrightarrow> has_engine w'))"

definition moved_only :: "extractor \<Rightarrow> path \<Rightarrow> 'u world \<Rightarrow> 'u world \<Rightarrow> bool" where
  "moved_only ex f w w' =
     (directories (fs w') = directories (fs w) \<and> read_only (fs w') = read_only (fs w)
      \<and> (has_engine w \<longrightarrow> has_engine w')
      \<and> (\<forall>p. p = f \<or> parent p = archive_dir ex \<or> parent p = error_dir ex
             \<or> map_of (files (fs w')) p = map_of (files (fs w)) p))"

section \<open>Sample inputs\<close>

definition digit_of :: "char \<Rightarrow> nat option" where
  "digit_of c = map_of (zip ''0123456789'' [0, 1, 2, 3, 4, 5, 6, 7, 8, 9]) c"

fun parse_digits :: "string \<Rightarrow> nat \<Rightarrow> nat option" where
  "parse_digits [] acc = Some acc"
| "parse_digits (c # cs) acc =
     (case digit_of c of None \<Rightarrow> None | Some d \<Rightarrow> parse_digits cs (10 * acc + d))"

definition parse_nat :: "string \<Rightarrow> nat option" where
  "parse_nat s = (if s = [] then None else parse_digits s 0)"

text \<open>Decimal numerals \<^verbatim>\<open>[-]digits[.digits]\<close>.\<close>

definition parse_decimal :: "string \<Rightarrow> rat option" where
  "parse_decimal s =
     (let neg = (s \<noteq> [] \<and> hd s = CHR ''-'');
          t = (if neg then tl s else s);
          whole = takeWhile (\<lambda>c. c \<noteq> CHR ''.'') t;
          rest = dropWhile (\<lambda>c. c \<noteq> CHR ''.'') t;
          sgn = (if neg then - 1 else 1)
      in case parse_nat whole of
           None \<Rightarrow> None
         | Some n \<Rightarrow>
             (if rest = [] then Some (sgn * of_nat n)
              else case parse_nat (tl rest) of
                     None \<Rightarrow> None
                   | Some f \<Rightarrow> Some (sgn * (of_nat n + of_nat f / of_nat (10 ^ length (tl rest))))))"

definition sample_numeric :: "cell \<Rightarrow> rat option" where
  "sample_numeric c =
     (case c of IntV i \<Rightarrow> Some (of_int i) | FloatV r \<Rightarrow> Some r
      | BoolV b \<Rightarrow> Some (if b then 1 else 0) | StrV s \<Rightarrow> parse_decimal (strip s)
      | _ \<Rightarrow> None)"

text \<open>Dates \<^verbatim>\<open>YYYY-MM-DD\<close>, read as the number \<^verbatim>\<open>YYYYMMDD\<close>.\<close>

definition sample_datetime :: "cell \<Rightarrow> int option" where
  "sample_datetime c =
     (case c of TimeV t \<Rightarrow> Some t
      | StrV s \<Rightarrow> map_option int (parse_nat (filter (\<lambda>c. c \<noteq> CHR ''-'') s))
      | _ \<Rightarrow> None)"

definition sample_str :: "cell \<Rightarrow> string" where
  "sample_str c =
     (case c of NA \<Rightarrow> ''nan'' | IntV i \<Rightarrow> str_int i | StrV s \<Rightarrow> s
      | BoolV b \<Rightarrow> (if b then ''True'' else ''False'') | TimeV t \<Rightarrow> str_int t
      | FloatV r \<Rightarrow> str_int (fst (quotient_of r)) @ ''/'' @ str_int (snd (quotient_of r)))"

definition sample_astype :: "string \<Rightarrow> series \<Rightarrow> exn + series" where
  "sample_astype dtype s =
     (if dtype \<in> set [''category'', ''object''] then Inr s
      else Inl (Exn TypeError (''data type '' @ repr dtype @ '' not understood'')))"

text \<open>Patterns without metacharacters: \<^verbatim>\<open>re.match\<close> looks for the pattern at the start.\<close>

definition sample_re_match :: "string \<Rightarrow> exn + (string \<Rightarrow> bool)" where
  "sample_re_match p = Inr (\<lambda>s. take (length p) s = p)"

definition sample_env :: "(nat \<Rightarrow> attempt) \<Rightarrow> (dataframe \<Rightarrow> exn option) \<Rightarrow> environment" where
  "sample_env outcome rejects =
     \<lparr>to_numeric_value = sample_numeric, to_datetime_value = sample_datetime,
      str_value = sample_str, astype_generic = sample_astype, re_match = sample_re_match,
      timestamp = ''20240105120000'', connect_outcome = outcome,
      to_sql_failure = rejects, execute_failure = (\<lambda>_. None)\<rparr>"




definition sample_config :: "string \<Rightarrow> db_config" where
  "sample_config kind =
     \<lparr>db_type = kind, host = ''localhost'', port = 5432, database = ''etl_target'',
      user = ''etl_user'', password = [], connection_timeout = 30, max_retries = 3,
      retry_delay = 5\<rparr>"

text \<open>A chunk of one row, as \<^verbatim>\<open>read_csv\<close> gives it for a file of this feed.\<close>

definition sample_chunk :: "cell \<Rightarrow> dataframe" where
  "sample_chunk tid =
     [(''transaction_id'', [tid]), (''date'', [StrV ''2024-01-05'']),
      (''customer_id'', [StrV ''c1'']), (''product_id'', [StrV ''p1'']),
      (''quantity'', [NA]), (''unit_price'', [FloatV (7 / 2)])]"

text \<open>The same chunk as the store holds it after the transformations of \<^verbatim>\<open>main\<close>.\<close>

definition sample_loaded :: "cell \<Rightarrow> dataframe" where
  "sample_loaded tid =
     [(''transaction_id'', [tid]), (''date'', [TimeV 20240105]),
      (''customer_id'', [StrV ''c1'']), (''product_id'', [StrV ''p1'']),
      (''quantity'', [IntV 0]), (''unit_price'', [FloatV (7 / 2)])]"

definition sample_header :: "string list" where
  "sample_header = [''transaction_id'', ''date'', ''customer_id'', ''product_id'',
                    ''quantity'', ''unit_price'']"

definition good_file :: "cell list \<Rightarrow> csv_file" where
  "good_file tids = \<lparr>header_row = Inr sample_header, batches = map (\<lambda>t. Inr (sample_chunk t)) tids\<rparr>"

text \<open>An empty file: \<^verbatim>\<open>next(reader)\<close> raises \<^verbatim>\<open>StopIteration\<close>.\<close>

definition empty_file :: csv_file where
  "empty_file = \<lparr>header_row = Inl (Exn StopIteration []), batches = []\<rparr>"

definition in_dir :: "string \<Rightarrow> path" where
  "in_dir n = \<lparr>parent = ''in'', name = n\<rparr>"

definition sample_fs :: "(string \<times> csv_file) list \<Rightarrow> filesystem" where
  "sample_fs fl = \<lparr>directories = [''in'', ''archive'', ''error''], read_only = [],
                   files = map (\<lambda>(n, c). (in_dir n, c)) fl\<rparr>"

definition sample_extractor :: extractor where
  "sample_extractor = \<lparr>input_dir = ''in'', archive_dir = ''archive'', error_dir = ''error''\<rparr>"

definition sample_settings :: settings where
  "sample_settings = \<lparr>csv = sample_extractor, database_settings = sample_config ''postgresql'',
                       parallel = False\<rparr>"

definition no_args :: args where
  "no_args = \<lparr>table_arg = None, schema_arg = None\<rparr>"

definition up_env :: environment where
  "up_env = sample_env (\<lambda>n. Connects) (\<lambda>df. None)"

text \<open>A directory with one empty file, and the same with an error directory that cannot be
  written to.\<close>

definition one_empty :: filesystem where
  "one_empty = sample_fs [(''k.csv'', empty_file)]"

definition locked_fs :: filesystem where
  "locked_fs = one_empty\<lparr>read_only := [''error'']\<rparr>"

definition sample_job :: "unit job" where
  "sample_job = main_job sample_settings no_args"

text \<open>A file of two chunks; the second has no transaction id.\<close>

definition half_good :: filesystem where
  "half_good = sample_fs [(''a.csv'', good_file [IntV 1, NA])]"

text \<open>A custom rule that counts its calls in the custom state, and always passes.\<close>

definition counting_rule :: "nat validation" where
  "counting_rule = CustomV (\<lambda>df n. (Inr True, Suc n)) None"

definition counting_world :: "nat world" where
  "counting_world = \<lparr>fs = empty_fs, tables = [], db_calls = [], attempts = 0, engine = None,
                      connection = False, logger = [], sleeps = [], custom_state = 0\<rparr>"

definition ab_frame :: dataframe where
  "ab_frame = [(''a'', [IntV 1, IntV 2]), (''b'', [NA, StrV ''x''])]"

text \<open>Two files of one chunk each; three files, the second of them empty; one file whose
  only chunk has no transaction id.\<close>

definition two_files :: filesystem where
  "two_files = sample_fs [(''a.csv'', good_file [IntV 1]), (''b.csv'', good_file [IntV 2])]"


definition null_id :: filesystem where
  "null_id = sample_fs [(''a.csv'', good_file [NA])]"

text \<open>The world after \<^verbatim>\<open>loader.connect()\<close>.\<close>

definition connected :: "filesystem \<Rightarrow> unit world" where
  "connected f = (world0 f)\<lparr>attempts := 1, connection := True,
                   engine := Some ''postgresql://etl_user:@localhost:5432/etl_target''\<rparr>"

section \<open>Evaluation rules\<close>

lemmas py_defs = is_ETLError_def str_nat.simps str_int_def str_opt_def repr_def ascii_lower_def lower_def
  is_space_def strip_def endswith_def str_path_def joinpath_def dot_index_def suffix_def stem_def
  columns_def len_df_def getitem_def setitem_def head0_def log_msg_def join.simps repr_set_def repr_list_def
lemmas transformer_defs = to_datetime_coerce_def to_numeric_coerce_def astype_float_def is_integral_def
  fractional_def astype_Int64_def astype_str_def truthy_def astype_bool_def fillna_def cell_number_def
  numeric_values_def rename_columns_def drop_columns_def convert_series_def convert_error_msg_def
  transform_def min_below_def max_above_def check_max_def check_range_def check_regex_def validate_data_def
lemmas extractor_defs = glob_csv_def list_csv_files_def open_file_def get_csv_schema_def validate_schema_def
  shutil_move_def archive_file_def move_file_to_error_def extraction_failed_def read_csv_def
  extract_from_file_def
lemmas loader_defs = try_connect_def connect_loop.simps connect_def
  qualified_name_def ensure_engine_def disconnect_def table_exists_def no_engine_def engine_execute_def
  set_table_def to_sql_def drop_table_def add_primary_key_def create_table_failed_def
  create_table_from_dataframe_def load_failed_def load_dataframe_def
lemmas main_defs = if_exists_arg_def process_batch_def process_file_try_def process_file_def
  main_transformations_def main_validations_def main_job_def summarize_def pipeline_failed_def main_def
lemmas sample_defs = digit_of_def parse_nat_def parse_decimal_def sample_numeric_def sample_datetime_def
  sample_str_def sample_astype_def sample_re_match_def sample_env_def sample_config_def empty_fs_def
  world0_def sample_chunk_def sample_header_def good_file_def empty_file_def in_dir_def sample_fs_def
  sample_extractor_def sample_settings_def no_args_def up_env_def sample_job_def connected_def
lemmas all_defs = py_defs transformer_defs extractor_defs loader_defs main_defs sample_defs

section \<open>Properties of the Loader\<close>

lemma log_msg_fields [simp]:
  "fs (log_msg l m w) = fs w" "tables (log_msg l m w) = tables w"
  "db_calls (log_msg l m w) = db_calls w" "attempts (log_msg l m w) = attempts w"
  "engine (log_msg l m w) = engine w" "connection (log_msg l m w) = connection w"
  "sleeps (log_msg l m w) = sleeps w" "custom_state (log_msg l m w) = custom_state w"
  "logger (log_msg l m w) = logger w @ [(l, m)]"
  by (simp_all add: log_msg_def)









section \<open>Properties of the Extractor and of a file's run\<close>

lemma move_file_to_error_returns: "\<exists>p. fst (move_file_to_error E ex f w) = Inr p"
  by (simp add: move_file_to_error_def Let_def split: sum.split)

text \<open>
  C8. When the relocation into the error directory fails (\<^verbatim>\<open>shutil.move\<close> raises),
  \<^verbatim>\<open>_move_file_to_error\<close> does not raise: it logs the failure at level ERROR and returns
  the path it was given, and the file system is as it was. The \<^verbatim>\<open>except\<close> clause of
  \<^verbatim>\<open>extract_from_file\<close> that called it then raises the \<^verbatim>\<open>ExtractionError\<close> with the text
  of the original error \<open>e\<close>: the failed relocation neither replaces nor changes it.
\<close>

theorem quarantine_failure_is_logged_not_raised:
  assumes "shutil_move (fs w) file_path
             (joinpath (error_dir ex)
                (stem file_path @ ''_error_'' @ timestamp E @ suffix file_path)) = Inl x"
  shows "move_file_to_error E ex file_path w
           = (Inr file_path,
              log_msg ERROR (''Failed to move '' @ str_path file_path
                             @ '' to error directory: '' @ str_exn x) w)
       \<and> extraction_failed E ex file_path e w
           = (Exn ExtractionError (''Error extracting data from '' @ str_path file_path
                                   @ '': '' @ str_exn e),
              log_msg ERROR (''Failed to move '' @ str_path file_path
                             @ '' to error directory: '' @ str_exn x)
                (log_msg ERROR (''Error extracting data from '' @ str_path file_path
                                @ '': '' @ str_exn e) w))"
  using assms
  by (simp add: move_file_to_error_def extraction_failed_def Let_def)

lemma move_locked:
  "shutil_move locked_fs (in_dir ''k.csv'')
             (joinpath (error_dir sample_extractor)
                (stem (in_dir ''k.csv'') @ ''_error_'' @ timestamp up_env @ suffix (in_dir ''k.csv'')))
    = Inl (Exn OSError (''[Errno 13] Permission denied: '' @ repr ''error/k_error_20240105120000.csv''))"
  by (simp add: stem_def suffix_def dot_index_def Let_def shutil_move_def locked_fs_def one_empty_def
      sample_fs_def in_dir_def joinpath_def sample_extractor_def up_env_def sample_env_def str_path_def)

text \<open>
  The error directory is read-only and the file is empty: the move is refused, the path
  of the file comes back, and the extraction error is the one of the empty file.
\<close>

theorem quarantine_failure_witness:
  "move_file_to_error up_env sample_extractor (in_dir ''k.csv'') (world0 locked_fs)
     = (Inr (in_dir ''k.csv''),
        log_msg ERROR (''Failed to move in/k.csv to error directory: ''
           @ ''[Errno 13] Permission denied: '' @ repr ''error/k_error_20240105120000.csv'')
          (world0 locked_fs))
   \<and> fst (extraction_failed up_env sample_extractor (in_dir ''k.csv'') (Exn StopIteration [])
          (world0 locked_fs))
     = Exn ExtractionError ''Error extracting data from in/k.csv: ''"
proof -
  have fs0: "fs (world0 locked_fs) = locked_fs" by (simp add: world0_def)
  have sp: "str_path (in_dir ''k.csv'') = ''in/k.csv''" by (simp add: str_path_def in_dir_def)
  from quarantine_failure_is_logged_not_raised[of "world0 locked_fs" "in_dir ''k.csv''"
      sample_extractor up_env _ "Exn StopIteration []", unfolded fs0, OF move_locked]
  show ?thesis by (simp add: sp)
qed

text \<open>
  C9. When the \<^verbatim>\<open>try\<close> block of \<^verbatim>\<open>process_file\<close> raises, at whatever point, the result
  has \<^verbatim>\<open>success = False\<close>, \<^verbatim>\<open>rows_processed = 0\<close> and \<^verbatim>\<open>rows_loaded = 0\<close>, and the error
  text: the totals of the chunks already loaded are not in the result.
\<close>

theorem failed_run_reports_no_rows:
  "fst (process_file_try E J file_path w) = Inl e \<Longrightarrow>
   fst (process_file E J file_path w)
     = \<lparr>file_str = str_path file_path, success = False, rows_processed = 0, rows_loaded = 0,
        error = Some ((if is_ETLError e then ''ETL error processing ''
                       else ''Unexpected error processing '')
                      @ str_path file_path @ '': '' @ str_exn e)\<rparr>"
  by (cases "process_file_try E J file_path w") (simp add: process_file_def Let_def)


section \<open>Properties of validation\<close>

lemma check_rules_append:
  "check_rules E df (xs @ ys) u =
     (case check_rules E df xs u of (Inl e, u1) \<Rightarrow> (Inl e, u1) | (Inr x, u1) \<Rightarrow> check_rules E df ys u1)"
  by (induction xs arbitrary: u) (auto split: prod.splits sum.splits)

lemma check_rules_first_failure:
  assumes "i < length vs" "check_rules E df (take i vs) u = (Inr (), u1)"
    "check_rule E df (vs ! i) u1 = (Inl e, u2)"
  shows "check_rules E df (take (Suc i) vs @ others) u = (Inl e, u2)"
proof -
  have "take (Suc i) vs @ others = take i vs @ (vs ! i # others)"
    using assms(1) by (simp add: take_Suc_conv_app_nth)
  then show ?thesis
    using assms(2,3) by (simp add: check_rules_append)
qed

text \<open>
  C7. Let rule \<open>i\<close> be the first rule of the list that fails on the chunk: the rules before
  it pass in turn (\<open>check_rules\<close> on the first \<open>i\<close> rules returns) and rule \<open>i\<close> raises
  \<open>e\<close>. Then \<^verbatim>\<open>validate_data\<close> raises a \<^verbatim>\<open>ValidationError\<close> for that rule (\<open>e\<close> itself if
  it is one, else \<open>e\<close> wrapped), and no rule after \<open>i\<close> is evaluated: the custom state is
  the one rule \<open>i\<close> left, and replacing the rules after \<open>i\<close> by any other rules changes
  neither the result nor the world. If every rule passes, \<^verbatim>\<open>validate_data\<close> returns
  \<^verbatim>\<open>True\<close>.
\<close>

theorem validate_fails_fast:
  "(\<forall>E df (vs :: 'u validation list) (w :: 'u world) i u1 e u2 others.
      i < length vs \<and> check_rules E df (take i vs) (custom_state w) = (Inr (), u1)
      \<and> check_rule E df (vs ! i) u1 = (Inl e, u2)
      \<longrightarrow> fst (validate_data E df vs w) = Inl (as_validation_error e)
          \<and> cls (as_validation_error e) = ValidationError
          \<and> custom_state (snd (validate_data E df vs w)) = u2
          \<and> validate_data E df (take (Suc i) vs @ others) w = validate_data E df vs w)
   \<and> (\<forall>E df (vs :: 'u validation list) (w :: 'u world) u1.
      check_rules E df vs (custom_state w) = (Inr (), u1)
      \<longrightarrow> fst (validate_data E df vs w) = Inr True)"
proof (intro conjI allI impI)
  fix E df and vs :: "'u validation list" and w :: "'u world" and i u1 e u2 others
  assume h: "i < length vs \<and> check_rules E df (take i vs) (custom_state w) = (Inr (), u1)
      \<and> check_rule E df (vs ! i) u1 = (Inl e, u2)"
  have a: "check_rules E df (take (Suc i) vs @ os) (custom_state w) = (Inl e, u2)" for os
    using check_rules_first_failure[of i vs E df "custom_state w" u1 e u2 os] h by simp
  have "take (Suc i) vs @ drop (Suc i) vs = vs" by simp
  with a[of "drop (Suc i) vs"] have b: "check_rules E df vs (custom_state w) = (Inl e, u2)"
    by simp
  show "fst (validate_data E df vs w) = Inl (as_validation_error e)"
    using b by (simp add: validate_data_def as_validation_error_def)
  show "cls (as_validation_error e) = ValidationError"
    by (simp add: as_validation_error_def)
  show "custom_state (snd (validate_data E df vs w)) = u2"
    using b by (simp add: validate_data_def)
  show "validate_data E df (take (Suc i) vs @ others) w = validate_data E df vs w"
    using a[of others] b by (simp add: validate_data_def)
next
  fix E df and vs :: "'u validation list" and w :: "'u world" and u1
  assume "check_rules E df vs (custom_state w) = (Inr (), u1)"
  then show "fst (validate_data E df vs w) = Inr True"
    by (simp add: validate_data_def)
qed

text \<open>
  The third of four rules fails: the counting rule before it ran once, the counting rule
  after it did not run.
\<close>

theorem validate_fails_fast_witness:
  "fst (validate_data up_env ab_frame
          [NotNull [''a''], counting_rule, NotNull [''b''], counting_rule] counting_world)
     = Inl (Exn ValidationError (''Column '' @ repr ''b'' @ '' contains NULL values''))
   \<and> custom_state (snd (validate_data up_env ab_frame
          [NotNull [''a''], counting_rule, NotNull [''b''], counting_rule] counting_world)) = 1
   \<and> validate_data up_env ab_frame
          ([NotNull [''a''], counting_rule, NotNull [''b'']] @ [OtherV ''x'', Unique [''c'']])
          counting_world
     = validate_data up_env ab_frame
          [NotNull [''a''], counting_rule, NotNull [''b''], counting_rule] counting_world
   \<and> fst (validate_data up_env ab_frame [NotNull [''a''], counting_rule] counting_world) = Inr True"
proof -
  let ?vs = "[NotNull [''a''], counting_rule, NotNull [''b''], counting_rule]"
  let ?e = "Exn ValidationError (''Column '' @ repr ''b'' @ '' contains NULL values'')"
  have 1: "check_rules up_env ab_frame (take 2 ?vs) (custom_state counting_world) = (Inr (), 1)"
    by (simp add: numeral_2_eq_2 counting_rule_def counting_world_def ab_frame_def getitem_def)
  have 2: "check_rule up_env ab_frame (?vs ! 2) 1 = (Inl ?e, 1)"
    by (simp add: numeral_2_eq_2 ab_frame_def getitem_def)
  have 3: "check_rules up_env ab_frame [NotNull [''a''], counting_rule] (custom_state counting_world)
             = (Inr (), 1)"
    by (simp add: counting_rule_def counting_world_def ab_frame_def getitem_def)
  have 4: "take (Suc 2) ?vs = [NotNull [''a''], counting_rule, NotNull [''b'']]"
    by (simp add: numeral_2_eq_2)
  from validate_fails_fast[THEN conjunct1, rule_format, of 2 ?vs up_env ab_frame counting_world 1 ?e 1
      "[OtherV ''x'', Unique [''c'']]"] 1 2
  have a: "fst (validate_data up_env ab_frame ?vs counting_world) = Inl (as_validation_error ?e)
     \<and> custom_state (snd (validate_data up_env ab_frame ?vs counting_world)) = 1
     \<and> validate_data up_env ab_frame (take (Suc 2) ?vs @ [OtherV ''x'', Unique [''c'']]) counting_world
         = validate_data up_env ab_frame ?vs counting_world"
    by simp
  from validate_fails_fast[THEN conjunct2, rule_format, OF 3]
  have b: "fst (validate_data up_env ab_frame [NotNull [''a''], counting_rule] counting_world) = Inr True" .
  from a b show ?thesis
    unfolding 4 by (simp add: as_validation_error_def)
qed











section \<open>Properties of type conversion\<close>














section \<open>Frame properties\<close>

subsection \<open>What the operations leave unchanged\<close>

lemma quiet_refl [simp, intro!]: "quiet w w"
  by (simp add: quiet_def)

lemma quiet_trans: "quiet w w1 \<Longrightarrow> quiet w1 w2 \<Longrightarrow> quiet w w2"
  by (simp add: quiet_def)

lemma has_engine_log [simp]: "has_engine (log_msg l m w) = has_engine w"
  by (simp add: has_engine_def)

lemma quiet_log [simp]: "quiet w (log_msg l m w') = quiet w w'"
  by (simp add: quiet_def)

lemma quiet_sum_case:
  "(\<And>e. quiet w (snd (f e))) \<Longrightarrow> (\<And>a. quiet w (snd (g a)))
   \<Longrightarrow> quiet w (snd (case r of Inl e \<Rightarrow> f e | Inr a \<Rightarrow> g a))"
  by (cases r) auto

lemma quiet_case_pair:
  assumes "quiet w (snd x)"
    and "\<And>r. quiet w (snd x) \<Longrightarrow> quiet w (snd (f r (snd x)))"
  shows "quiet w (snd (case x of (r, w1) \<Rightarrow> f r w1))"
  using assms by (cases x) auto

lemma quiet_if:
  "(c \<Longrightarrow> quiet w (snd a)) \<Longrightarrow> (\<not> c \<Longrightarrow> quiet w (snd b)) \<Longrightarrow> quiet w (snd (if c then a else b))"
  by simp

lemma quiet_option_case:
  "(x = None \<Longrightarrow> quiet w (snd a)) \<Longrightarrow> (\<And>y. x = Some y \<Longrightarrow> quiet w (snd (b y)))
   \<Longrightarrow> quiet w (snd (case x of None \<Rightarrow> a | Some y \<Rightarrow> b y))"
  by (cases x) auto

lemma quiet_policy_case:
  "quiet w (snd a) \<Longrightarrow> quiet w (snd b) \<Longrightarrow> quiet w (snd c)
   \<Longrightarrow> quiet w (snd (case p of Fail \<Rightarrow> a | Replace \<Rightarrow> b | Append \<Rightarrow> c))"
  by (cases p) auto

lemmas quiet_intros = quiet_sum_case quiet_case_pair quiet_if quiet_option_case quiet_policy_case

lemma convert_types_quiet:
  "quiet w w0 \<Longrightarrow> quiet w (snd (convert_types E df m w0))"
  by (induction m arbitrary: df w0) (auto split: option.split sum.split)

lemma apply_transformations_quiet:
  "quiet w w0 \<Longrightarrow> quiet w (snd (apply_transformations E reg df ts w0))"
proof (induction ts arbitrary: df w0)
  case Nil
  then show ?case by simp
next
  case (Cons t ts)
  then show ?case
    by (cases t) (auto simp: convert_types_quiet intro!: quiet_intros)
qed

lemma transform_quiet: "quiet w w0 \<Longrightarrow> quiet w (snd (transform E reg df ts w0))"
  by (auto simp: transform_def apply_transformations_quiet intro!: quiet_intros)

lemma validate_data_quiet: "quiet w w0 \<Longrightarrow> quiet w (snd (validate_data E df vs w0))"
  by (auto simp: validate_data_def quiet_def has_engine_def split: prod.split sum.split)

lemma list_csv_files_quiet: "quiet w w0 \<Longrightarrow> quiet w (snd (list_csv_files ex w0))"
  by (simp add: list_csv_files_def Let_def)

lemma if_exists_arg_quiet: "quiet w w0 \<Longrightarrow> quiet w (snd (if_exists_arg ex f i w0))"
  by (auto simp: if_exists_arg_def list_csv_files_quiet intro!: quiet_intros)

lemma get_csv_schema_quiet: "quiet w w0 \<Longrightarrow> quiet w (snd (get_csv_schema ex f w0))"
  by (auto simp: get_csv_schema_def split: sum.split)

lemma try_connect_quiet: "quiet w w0 \<Longrightarrow> quiet w (snd (try_connect E cfg cs w0))"
  by (auto simp: try_connect_def Let_def quiet_def has_engine_def split: attempt.split)

lemma connect_loop_quiet:
  "int k = max_retries cfg - retries \<or> (k = 0 \<and> max_retries cfg \<le> retries) \<Longrightarrow>
   quiet w w0 \<Longrightarrow> quiet w (snd (connect_loop E cfg cs retries le w0))"
proof (induction k arbitrary: retries le w0)
  case 0
  then show ?case
    by (auto simp: connect_loop.simps[of E cfg cs retries le w0] Let_def)
next
  case (Suc k)
  then have lt: "retries < max_retries cfg" by auto
  obtain r w1 where t: "try_connect E cfg cs w0 = (r, w1)" by (cases "try_connect E cfg cs w0")
  have w1: "quiet w w1"
    using try_connect_quiet[OF Suc.prems(2), of E cfg cs] t by simp
  show ?case
  proof (cases r)
    case None
    with t lt w1 show ?thesis
      by (simp add: connect_loop.simps[of E cfg cs retries le w0])
  next
    case (Some e)
    define w3 where "w3 = (let w2 = log_msg WARNING (''Connection attempt '' @ str_int (retries + 1)
                         @ '' failed: '' @ str_exn e) w1 in (if retries + 1 < max_retries cfg
                        then w2\<lparr>sleeps := sleeps w2 @ [retry_delay cfg]\<rparr> else w2))"
    have step: "connect_loop E cfg cs retries le w0
                  = connect_loop E cfg cs (retries + 1) (Some (str_exn e)) w3"
      using lt t Some by (simp add: connect_loop.simps[of E cfg cs retries le w0] w3_def Let_def)
    have w3: "quiet w w3"
      using w1 by (auto simp: w3_def Let_def quiet_def has_engine_def)
    have "int k = max_retries cfg - (retries + 1) \<or> (k = 0 \<and> max_retries cfg \<le> retries + 1)"
      using Suc.prems by auto
    from Suc.IH[OF this w3, of "Some (str_exn e)"] step show ?thesis by simp
  qed
qed

lemma connect_quiet: "quiet w w0 \<Longrightarrow> quiet w (snd (connect E cfg w0))"
proof -
  assume q: "quiet w w0"
  have k: "int (nat (max_retries cfg - 0)) = max_retries cfg - 0
           \<or> (nat (max_retries cfg - 0) = 0 \<and> max_retries cfg \<le> 0)" by auto
  have "quiet w (snd (connect_loop E cfg cs 0 None w0))" for cs
    by (rule connect_loop_quiet[OF k q])
  with q show ?thesis
    by (simp add: connect_def Let_def)
qed

lemma ensure_engine_quiet: "quiet w w0 \<Longrightarrow> quiet w (snd (ensure_engine E cfg w0))"
  by (simp add: ensure_engine_def connect_quiet)

lemma table_exists_quiet: "quiet w w0 \<Longrightarrow> quiet w (snd (table_exists E cfg t sch w0))"
  by (auto simp: table_exists_def ensure_engine_quiet intro!: quiet_intros)

lemma engine_execute_quiet: "quiet w w0 \<Longrightarrow> quiet w (snd (engine_execute E sql w0))"
  by (auto simp: engine_execute_def Let_def quiet_def has_engine_def split: option.split)

lemma to_sql_quiet: "quiet w w0 \<Longrightarrow> quiet w (snd (to_sql E df t pol w0))"
  by (auto simp: to_sql_def Let_def quiet_def has_engine_def split: option.split if_exists.split)

lemma quiet_update [simp]:
  "quiet w (w'\<lparr>tables := t\<rparr>) = quiet w w'"
  "quiet w (w'\<lparr>db_calls := c\<rparr>) = quiet w w'"
  "quiet w (w'\<lparr>custom_state := u\<rparr>) = quiet w w'"
  by (simp_all add: quiet_def has_engine_def)

lemma drop_table_quiet: "quiet w w0 \<Longrightarrow> quiet w (snd (drop_table E t sch w0))"
  by (auto simp: drop_table_def Let_def engine_execute_quiet intro!: quiet_intros)

lemma add_primary_key_quiet: "quiet w w0 \<Longrightarrow> quiet w (snd (add_primary_key E t sch pk w0))"
  by (auto simp: add_primary_key_def Let_def engine_execute_quiet intro!: quiet_intros)

lemma create_table_quiet:
  "quiet w w0 \<Longrightarrow> quiet w (snd (create_table_from_dataframe E cfg df t sch pol pk w0))"
  by (auto simp: create_table_from_dataframe_def create_table_failed_def Let_def
        table_exists_quiet drop_table_quiet to_sql_quiet add_primary_key_quiet
      intro!: quiet_intros)

lemma load_dataframe_quiet:
  "quiet w w0 \<Longrightarrow> quiet w (snd (load_dataframe E cfg df t sch pol w0))"
  by (auto simp: load_dataframe_def load_failed_def Let_def
        ensure_engine_quiet table_exists_quiet create_table_quiet to_sql_quiet
      intro!: quiet_intros)

lemma process_batch_quiet:
  "quiet w w0 \<Longrightarrow> quiet w (snd (process_batch E J f i df w0))"
  by (auto simp: process_batch_def transform_quiet validate_data_quiet if_exists_arg_quiet
        load_dataframe_quiet
      intro!: quiet_intros)

subsection \<open>Moves\<close>

lemma has_engine_update [simp]:
  "has_engine (w\<lparr>fs := f\<rparr>) = has_engine w"
  "has_engine (w\<lparr>tables := t\<rparr>) = has_engine w"
  "has_engine (w\<lparr>db_calls := c\<rparr>) = has_engine w"
  by (simp_all add: has_engine_def)

lemma moved_only_refl [simp, intro!]: "moved_only ex f w w"
  by (simp add: moved_only_def)



lemma moved_only_log [simp]: "moved_only ex f w (log_msg l m w') = moved_only ex f w w'"
  by (simp add: moved_only_def)
















subsection \<open>The classes of the exceptions of a file's run\<close>

lemma extraction_failed_cls [simp]:
  "cls (fst (extraction_failed E ex f e w)) = ExtractionError"
  by (simp add: extraction_failed_def move_file_to_error_def Let_def split: sum.split)

lemma archive_file_result:
  "archive_file E ex f w = (r, w') \<Longrightarrow>
   (case r of Inl e \<Rightarrow> cls e = ExtractionError | Inr p \<Rightarrow> True)"
  by (auto simp: archive_file_def Let_def split: sum.splits)

lemma extract_from_file_result:
  "extract_from_file E ex f sch w = (r, w') \<Longrightarrow>
   (case r of Inl e \<Rightarrow> cls e = ExtractionError | Inr chunks \<Rightarrow> quiet w w')"
  by (auto simp: extract_from_file_def Let_def get_csv_schema_def case_prod_beta
      split: sum.splits prod.splits)

lemma process_batches_result:
  "process_batches E J f i tr tld bs w0 = (r, w') \<Longrightarrow> quiet w w0 \<Longrightarrow>
   (case r of Inl e \<Rightarrow> cls e = ExtractionError \<or> quiet w w' | Inr t \<Rightarrow> quiet w w')"
proof (induction bs arbitrary: i tr tld w0)
  case Nil
  then show ?case by auto
next
  case (Cons b bs)
  show ?case
  proof (cases b)
    case (Inl e)
    with Cons.prems show ?thesis
      using extraction_failed_cls[of E "the_extractor J" f e w0]
      by (auto simp: case_prod_beta)
  next
    case (Inr df)
    let ?w1 = "log_msg INFO (''Processing batch '' @ str_nat (i + 1) @ '' with ''
                 @ str_nat (len_df df) @ '' rows'') w0"
    obtain r1 w2 where pb: "process_batch E J f i df ?w1 = (r1, w2)"
      by (cases "process_batch E J f i df ?w1")
    have q2: "quiet w w2"
      using process_batch_quiet[of w ?w1 E J f i df] Cons.prems(2) pb by simp
    show ?thesis
    proof (cases r1)
      case (Inl e)
      with Cons.prems Inr pb q2 show ?thesis by (auto simp: Let_def)
    next
      case r: (Inr n)
      with Cons.prems Inr pb have
        "process_batches E J f (i + 1) (tr + len_df df) (tld + n) bs
           (log_msg INFO (''Loaded '' @ str_nat n @ '' rows from batch '' @ str_nat (i + 1)) w2)
         = (r, w')"
        by (simp add: Let_def)
      from Cons.IH[OF this] q2 show ?thesis by simp
    qed
  qed
qed

lemma process_file_try_result:
  assumes "process_file_try E J f w = (Inl e, w')"
    and "cls e \<noteq> ExtractionError"
  shows "quiet w w'"
proof -
  let ?w1 = "log_msg INFO (''Starting ETL process for '' @ str_path f) w"
  obtain r2 w2 where ex: "extract_from_file E (the_extractor J) f None ?w1 = (r2, w2)"
    by (cases "extract_from_file E (the_extractor J) f None ?w1")
  show ?thesis
  proof (cases r2)
    case (Inl x)
    with ex assms extract_from_file_result[OF ex] show ?thesis
      by (auto simp: process_file_try_def Let_def)
  next
    case (Inr chunks)
    with extract_from_file_result[OF ex] have q2: "quiet w w2" by (simp add: quiet_def)
    obtain r3 w3 where pb: "process_batches E J f 0 0 0 chunks w2 = (r3, w3)"
      by (cases "process_batches E J f 0 0 0 chunks w2")
    show ?thesis
    proof (cases r3)
      case (Inl x)
      with ex Inr pb assms process_batches_result[OF pb q2] show ?thesis
        by (auto simp: process_file_try_def Let_def)
    next
      case r: (Inr t)
      obtain r4 w4 where ar: "archive_file E (the_extractor J) f w3 = (r4, w4)"
        by (cases "archive_file E (the_extractor J) f w3")
      with ex Inr pb r assms archive_file_result[OF ar] show ?thesis
        by (cases r4; cases t) (auto simp: process_file_try_def Let_def)
    qed
  qed
qed

subsection \<open>When a chunk is processed\<close>






lemma list_csv_files_result:
  "fst (list_csv_files ex w)
     = (if input_dir ex \<in> set (directories (fs w)) then Inr (glob_csv (fs w) (input_dir ex))
        else Inl (Exn ExtractionError (''Input directory '' @ input_dir ex @ '' does not exist'')))"
  by (simp add: list_csv_files_def Let_def)


lemma has_engine_ensure [simp]: "has_engine w \<Longrightarrow> ensure_engine E cfg w = (Inr (), w)"
  by (cases "engine w") (simp_all add: ensure_engine_def has_engine_def)

lemma has_engine_table_exists [simp]:
  "has_engine w \<Longrightarrow>
   table_exists E cfg t sch w = (Inr (qualified_name sch t \<in> set (map fst (tables w))), w)"
  by (simp add: table_exists_def)




lemma quiet_transform [simp]:
  "fs (snd (transform E reg df ts w)) = fs w"
  "has_engine w \<Longrightarrow> has_engine (snd (transform E reg df ts w))"
  using transform_quiet[of w w E reg df ts] by (simp_all add: quiet_def)

lemma quiet_validate [simp]:
  "fs (snd (validate_data E df vs w)) = fs w"
  "has_engine w \<Longrightarrow> has_engine (snd (validate_data E df vs w))"
  using validate_data_quiet[of w w E df vs] by (simp_all add: quiet_def)

lemma quiet_if_exists_arg [simp]:
  "fs (snd (if_exists_arg ex f i w)) = fs w"
  "has_engine w \<Longrightarrow> has_engine (snd (if_exists_arg ex f i w))"
  using if_exists_arg_quiet[of w w ex f i] by (simp_all add: quiet_def)

text \<open>The job of \<^verbatim>\<open>main\<close>.\<close>

lemma main_job_fields [simp]:
  "the_extractor (main_job S A) = csv S" "the_registry (main_job S A) = Map.empty"
  "the_loader (main_job S A) = database_settings S"
  "transformations (main_job S A) = main_transformations"
  "validations (main_job S A) = main_validations"
  by (simp_all add: main_job_def)

lemma main_validations_nonempty [simp]: "(main_validations :: 'u validation list) \<noteq> []"
  by (simp add: main_validations_def)





subsection \<open>When a file is processed\<close>












subsection \<open>Runs of the samples\<close>

lemma null_id_run:
  "fst (process_file_try up_env sample_job (in_dir ''a.csv'') (connected null_id))
     = Inl (Exn ValidationError (''Column '' @ repr ''transaction_id'' @ '' contains NULL values''))"
  by (simp add: all_defs null_id_def Let_def)

lemma half_good_run:
  "fst (process_file_try up_env sample_job (in_dir ''a.csv'') (connected half_good))
     = Inl (Exn ValidationError (''Column '' @ repr ''transaction_id'' @ '' contains NULL values''))"
  by (simp add: all_defs half_good_def Let_def)

lemma half_good_calls:
  "db_calls (snd (process_file up_env sample_job (in_dir ''a.csv'') (connected half_good)))
     = [ToSql ''csv_data'' Replace 1]"
  by (simp add: all_defs half_good_def Let_def)

text \<open>
  A file of two chunks whose second chunk fails validation: the first chunk has been
  loaded (the store received it), and the result reports no rows.
\<close>

theorem failed_run_reports_no_rows_witness:
  "fst (process_file up_env sample_job (in_dir ''a.csv'') (connected half_good))
     = \<lparr>file_str = ''in/a.csv'', success = False, rows_processed = 0, rows_loaded = 0,
        error = Some (''ETL error processing in/a.csv: Column '' @ repr ''transaction_id''
                      @ '' contains NULL values'')\<rparr>
   \<and> db_calls (snd (process_file up_env sample_job (in_dir ''a.csv'') (connected half_good)))
     = [ToSql ''csv_data'' Replace 1]"
  using failed_run_reports_no_rows[OF half_good_run] half_good_calls
  by (simp add: is_ETLError_def str_path_def in_dir_def)

text \<open>
  C2, amended. When the \<^verbatim>\<open>try\<close> block of \<^verbatim>\<open>process_file\<close> raises a
  \<^verbatim>\<open>TransformationError\<close>, a \<^verbatim>\<open>ValidationError\<close> or a \<^verbatim>\<open>LoadError\<close>, the file system after
  \<^verbatim>\<open>process_file\<close> is the file system before it: the file is not relocated, it stays in the
  input directory. The result is a failure with the text of the error. Only the
  Extractor quarantines, on a failure of extraction.
\<close>

theorem failed_validation_leaves_file:
  "fst (process_file_try E J f w) = Inl e \<Longrightarrow>
   cls e \<in> {TransformationError, ValidationError, LoadError} \<Longrightarrow>
   fs (snd (process_file E J f w)) = fs w
   \<and> \<not> success (fst (process_file E J f w))
   \<and> error (fst (process_file E J f w))
       = Some (''ETL error processing '' @ str_path f @ '': '' @ str_exn e)"
proof -
  assume a: "fst (process_file_try E J f w) = Inl e"
    and b: "cls e \<in> {TransformationError, ValidationError, LoadError}"
  obtain w' where t: "process_file_try E J f w = (Inl e, w')"
    using a by (cases "process_file_try E J f w") simp
  from b have "cls e \<noteq> ExtractionError" by auto
  from process_file_try_result[OF t this] have "fs w' = fs w" by (simp add: quiet_def)
  with t b show ?thesis
    by (auto simp: process_file_def Let_def is_ETLError_def)
qed

text \<open>
  C2 as claimed fails: a file whose chunk fails validation is still the only file of the
  input directory after \<^verbatim>\<open>process_file\<close>; nothing is in the error directory.
\<close>

theorem failed_validation_is_not_quarantined:
  "fst (process_file_try up_env sample_job (in_dir ''a.csv'') (connected null_id))
     = Inl (Exn ValidationError (''Column '' @ repr ''transaction_id'' @ '' contains NULL values''))
   \<and> map fst (files (fs (snd (process_file up_env sample_job (in_dir ''a.csv'')
                               (connected null_id)))))
     = [in_dir ''a.csv'']"
proof -
  obtain w' where t: "process_file_try up_env sample_job (in_dir ''a.csv'') (connected null_id)
      = (Inl (Exn ValidationError (''Column '' @ repr ''transaction_id''
            @ '' contains NULL values'')), w')"
    using null_id_run
    by (cases "process_file_try up_env sample_job (in_dir ''a.csv'') (connected null_id)") simp
  from process_file_try_result[OF t] have "fs w' = fs (connected null_id)"
    by (simp add: quiet_def)
  with t have "fs (snd (process_file up_env sample_job (in_dir ''a.csv'') (connected null_id)))
      = null_id"
    by (simp add: process_file_def Let_def connected_def world0_def)
  with null_id_run show ?thesis
    by (simp add: null_id_def sample_fs_def)
qed

text \<open>
  The same file: the file system is unchanged and the result carries the error.
\<close>

theorem failed_validation_leaves_file_witness:
  "fs (snd (process_file up_env sample_job (in_dir ''a.csv'') (connected null_id))) = null_id
   \<and> \<not> success (fst (process_file up_env sample_job (in_dir ''a.csv'') (connected null_id)))
   \<and> error (fst (process_file up_env sample_job (in_dir ''a.csv'') (connected null_id)))
       = Some (''ETL error processing in/a.csv: Column '' @ repr ''transaction_id''
               @ '' contains NULL values'')"
  using failed_validation_leaves_file[OF null_id_run]
  by (simp add: str_path_def in_dir_def connected_def world0_def)

lemma two_files_listing:
  "fst (list_csv_files sample_extractor (world0 two_files))
     = Inr [in_dir ''a.csv'', in_dir ''b.csv'']"
  by (simp add: list_csv_files_result glob_csv_def sample_extractor_def world0_def two_files_def
      sample_fs_def in_dir_def endswith_def)

lemma two_files_calls:
  "db_calls (snd (main up_env sample_settings no_args (world0 two_files)))
     = [ToSql ''csv_data'' Replace 1, ToSql ''csv_data'' Replace 1]"
  by (simp add: all_defs two_files_def Let_def)

lemma two_files_tables:
  "tables (snd (main up_env sample_settings no_args (world0 two_files)))
     = [(''csv_data'', [sample_loaded (IntV 2)])]"
  by (simp add: all_defs two_files_def sample_loaded_def Let_def)

text \<open>
  C1. \<^verbatim>\<open>process_file\<close> lists the input directory again for the first chunk of each file
  and passes \<^verbatim>\<open>replace\<close> when the file is first in that listing. In a sequential run over
  two well-formed files of one chunk each, the first file is archived before the second
  is processed, so the second file is first in the new listing: the store receives
  \<^verbatim>\<open>replace\<close> for the chunk of the second file too, where the first chunk of the first
  discovered file alone should have it, and the table holds the row of the second file
  only when the run ends.
\<close>

theorem second_file_replaces_the_table:
  "fst (list_csv_files sample_extractor (world0 two_files))
     = Inr [in_dir ''a.csv'', in_dir ''b.csv'']
   \<and> db_calls (snd (main up_env sample_settings no_args (world0 two_files)))
     = [ToSql ''csv_data'' Replace 1, ToSql ''csv_data'' Replace 1]
   \<and> tables (snd (main up_env sample_settings no_args (world0 two_files)))
     = [(''csv_data'', [sample_loaded (IntV 2)])]"
  using two_files_listing two_files_calls two_files_tables by simp


subsection \<open>A run over several files\<close>







end
